theory Spec2Isabelle
  imports Complex_Main "HOL-Library.Sublist"
begin

section \<open>JavaScript strings\<close>

text \<open>
  A JavaScript string is a sequence of UTF-16 code units; \<open>length\<close>,
  \<open>includes\<close> and the regular expressions of \<open>searchMode.js\<close> (none has the
  \<open>u\<close> flag) all work on code units. A code unit is modelled as a natural number.
\<close>

type_synonym jsstring = "nat list"

definition js :: "string \<Rightarrow> jsstring" where
  "js s = map of_char s"

text \<open>The class \<open>\w\<close> of a regular expression without the \<open>u\<close> flag: \<open>[A-Za-z0-9_]\<close>.\<close>

definition isWordChar :: "nat \<Rightarrow> bool" where
  "isWordChar c = ((48 \<le> c \<and> c \<le> 57) \<or> (65 \<le> c \<and> c \<le> 90) \<or> c = 95 \<or> (97 \<le> c \<and> c \<le> 122))"

text \<open>
  The class \<open>\s\<close>: the white space and line terminator code points of ECMAScript
  (TAB, LF, VT, FF, CR, SP, NBSP, U+1680, U+2000 to U+200A, U+2028, U+2029, U+202F,
  U+205F, U+3000, U+FEFF). \<open>String.prototype.trim\<close> strips the same set.
\<close>

definition isSpaceChar :: "nat \<Rightarrow> bool" where
  "isSpaceChar c = ((9 \<le> c \<and> c \<le> 13) \<or> c = 32 \<or> c = 160 \<or> c = 5760 \<or> (8192 \<le> c \<and> c \<le> 8202)
     \<or> c = 8232 \<or> c = 8233 \<or> c = 8239 \<or> c = 8287 \<or> c = 12288 \<or> c = 65279)"

text \<open>
  \<open>String.prototype.toLowerCase\<close>, one code unit at a time. The ASCII capitals move
  to their small letters. Two code points outside ASCII have a lower case inside it:
  U+0130 (capital I with dot above) becomes \<open>i\<close> followed by U+0307, and U+212A
  (the Kelvin sign) becomes \<open>k\<close>. Every other code point with a lower case is sent by
  Unicode to code units that are again neither ASCII nor white space; the source only
  ever lower-cases a string to delete its non-word, non-space code units right after,
  so such a code unit is left in place here.
\<close>

definition lowerUnit :: "nat \<Rightarrow> jsstring" where
  "lowerUnit c =
     (if 65 \<le> c \<and> c \<le> 90 then [c + 32]
      else if c = 304 then [105, 775]
      else if c = 8490 then [107]
      else [c])"

definition toLowerCase :: "jsstring \<Rightarrow> jsstring" where
  "toLowerCase s = concat (map lowerUnit s)"

text \<open>\<open>s.replace(/[^\w\s]/g, '')\<close>: every code unit outside \<open>\w\<close> and \<open>\s\<close> is deleted.\<close>

definition stripNonWord :: "jsstring \<Rightarrow> jsstring" where
  "stripNonWord s = filter (\<lambda>c. isWordChar c \<or> isSpaceChar c) s"

text \<open>\<open>s.startsWith(t)\<close> and \<open>s.includes(t)\<close>: \<open>t\<close> occurs at the front of, or somewhere in, \<open>s\<close>.\<close>

fun startsWith :: "'a list \<Rightarrow> 'a list \<Rightarrow> bool" where
  "startsWith s [] = True"
| "startsWith [] (y # ys) = False"
| "startsWith (x # xs) (y # ys) = (x = y \<and> startsWith xs ys)"

fun includesStr :: "'a list \<Rightarrow> 'a list \<Rightarrow> bool" where
  "includesStr [] t = (t = [])"
| "includesStr (x # xs) t = (startsWith (x # xs) t \<or> includesStr xs t)"

text \<open>JavaScript truthiness of a value that is a string, \<open>null\<close> or \<open>undefined\<close>.\<close>

fun truthy :: "jsstring option \<Rightarrow> bool" where
  "truthy None = False"
| "truthy (Some s) = (s \<noteq> [])"

section \<open>The relevance matcher\<close>

text \<open>
  \<open>isStrictMatch\<close>, lines 319 to 345. The third argument defaults to \<open>null\<close>, which is
  \<open>None\<close> here. A missing (\<open>undefined\<close>) first or second argument is read by the
  guard of the first line exactly as the empty string is, so both arguments are strings.
\<close>

definition isStrictMatch :: "jsstring \<Rightarrow> jsstring \<Rightarrow> jsstring option \<Rightarrow> bool" where
  "isStrictMatch resultTitle targetTrackName targetArtist =
     (if resultTitle = [] \<or> targetTrackName = [] then False
      else
        let cleanResult = stripNonWord (toLowerCase resultTitle);
            cleanTarget = stripNonWord (toLowerCase targetTrackName);
            trackMatches = includesStr cleanResult cleanTarget
        in
          if truthy targetArtist \<and> length cleanTarget \<le> 3 then
            (let cleanArtist = stripNonWord (toLowerCase (the targetArtist));
                 artistMatches = includesStr cleanResult cleanArtist
             in trackMatches \<and> artistMatches)
          else if truthy targetArtist \<and> trackMatches then
            (let cleanArtist = stripNonWord (toLowerCase (the targetArtist));
                 artistMatches = includesStr cleanResult cleanArtist
             in artistMatches \<or> length cleanTarget > 3)
          else trackMatches)"


text \<open>
  The same function in the words of the specification: both strings are lower-cased and
  stripped; with an artist and a cleaned track of at most three code units, both the
  track and the artist must occur; with an artist and a track that occurs, the artist
  must occur too or the track be longer than three; otherwise the track must occur.
  This definition follows the specification, not the source, and has no guard on
  empty arguments.
\<close>

definition isStrictMatch_spec :: "jsstring \<Rightarrow> jsstring \<Rightarrow> jsstring option \<Rightarrow> bool" where
  "isStrictMatch_spec resultTitle targetTrack targetArtist =
     (let r = stripNonWord (toLowerCase resultTitle);
          t = stripNonWord (toLowerCase targetTrack)
      in case targetArtist of
           None \<Rightarrow> includesStr r t
         | Some artist \<Rightarrow>
             (let a = stripNonWord (toLowerCase artist)
              in if length t \<le> 3 then includesStr r t \<and> includesStr r a
                 else if includesStr r t then includesStr r a \<or> length t > 3
                 else includesStr r t))"

section \<open>The Internet Archive search\<close>

text \<open>
  What the metadata helpers hand back, \<open>{title, url, duration, extractor}\<close>. Every
  field is read from parsed JSON and may be \<open>undefined\<close>, which is \<open>None\<close>. The
  duration is a JSON number; it is only ever compared with a constant, so a rational
  stands for it.
\<close>

record metadata =
  meta_title :: "jsstring option"
  meta_url :: "jsstring option"
  meta_duration :: "rat option"
  meta_extractor :: "jsstring option"

text \<open>One document of the search response, with the two requested fields.\<close>

record archive_doc =
  doc_identifier :: jsstring
  doc_title :: "jsstring option"

text \<open>A string that may be \<open>undefined\<close>, as a guard \<open>!x\<close> sees it.\<close>

fun orEmpty :: "jsstring option \<Rightarrow> jsstring" where
  "orEmpty None = []"
| "orEmpty (Some s) = s"

definition archiveHit :: "archive_doc \<Rightarrow> metadata" where
  "archiveHit doc =
     \<lparr> meta_title = doc_title doc,
       meta_url = Some (js ''https://archive.org/details/'' @ doc_identifier doc),
       meta_duration = None,
       meta_extractor = Some (js ''archive.org'') \<rparr>"

text \<open>The \<open>for (const doc of docs)\<close> loop of lines 138 to 148, and the \<open>return null\<close> after it.\<close>

fun firstRelevant :: "jsstring \<Rightarrow> archive_doc list \<Rightarrow> metadata option" where
  "firstRelevant query [] = None"
| "firstRelevant query (doc # docs) =
     (if isStrictMatch (orEmpty (doc_title doc)) query None then Some (archiveHit doc)
      else firstRelevant query docs)"

text \<open>
  \<open>searchArchiveOrg\<close>, lines 129 to 158. The HTTP request is the parameter
  \<open>api\<close>: it answers the query with the \<open>docs\<close> array of the response, or with
  \<open>None\<close> when the request throws or the response has no such array (both end in
  \<open>return null\<close>). The titles of the documents are strings or missing.
\<close>

definition searchArchiveOrg :: "(jsstring \<Rightarrow> archive_doc list option) \<Rightarrow> jsstring \<Rightarrow> metadata option" where
  "searchArchiveOrg api query =
     (case api query of
        None \<Rightarrow> None
      | Some docs \<Rightarrow> if length docs > 0 then firstRelevant query docs else None)"


section \<open>String surgery on the query\<close>

text \<open>
  Matching a keyword under the \<open>i\<close> flag (without \<open>u\<close>): a code unit is compared
  after upper-casing, and a code unit outside ASCII is never identified with one inside
  it, so only the two ASCII cases of each letter match. The keyword is given in small
  letters.
\<close>

definition asciiLower :: "nat \<Rightarrow> nat" where
  "asciiLower c = (if 65 \<le> c \<and> c \<le> 90 then c + 32 else c)"

definition startsWithCI :: "jsstring \<Rightarrow> jsstring \<Rightarrow> bool" where
  "startsWithCI s kw = startsWith (map asciiLower s) kw"

text \<open>The code units that \<open>.\<close> does not match: LF, CR, U+2028, U+2029.\<close>

definition isLineTerminator :: "nat \<Rightarrow> bool" where
  "isLineTerminator c = (c = 10 \<or> c = 13 \<or> c = 8232 \<or> c = 8233)"

text \<open>
  The tail \<open>.*?[\)\]]\<close> of the two annotation patterns: the lazy star stops at the first
  \<open>)\<close> or \<open>]\<close>, and fails when a line terminator or the end of the string comes
  first. The result is the number of code units consumed. (The optional \<open>\.\<close> before
  it changes nothing: a dot is matched by \<open>.\<close> as well and closes nothing.)
\<close>

fun closeAt :: "jsstring \<Rightarrow> nat option" where
  "closeAt [] = None"
| "closeAt (c # cs) =
     (if c = 41 \<or> c = 93 then Some 1
      else if isLineTerminator c then None
      else map_option Suc (closeAt cs))"

text \<open>
  \<open>/[\(\[]?KW\.?.*?[\)\]]/i\<close> tried at the front of \<open>s\<close>, for \<open>KW\<close> one of \<open>feat\<close>
  and \<open>ft\<close>: the length of the match, if there is one. The optional opening bracket
  is taken first and given back when the rest fails.
\<close>

definition annotationBody :: "jsstring \<Rightarrow> jsstring \<Rightarrow> nat option" where
  "annotationBody kw s =
     (if startsWithCI s kw then map_option (\<lambda>n. length kw + n) (closeAt (drop (length kw) s))
      else None)"

definition annotationAt :: "jsstring \<Rightarrow> jsstring \<Rightarrow> nat option" where
  "annotationAt kw s =
     (case s of
        [] \<Rightarrow> None
      | c # r \<Rightarrow>
          if c = 40 \<or> c = 91 then
            (case annotationBody kw r of Some n \<Rightarrow> Some (Suc n) | None \<Rightarrow> annotationBody kw s)
          else annotationBody kw s)"

text \<open>
  \<open>s.replace(/[\(\[]?KW\.?.*?[\)\]]/gi, "")\<close>: every match, found from left to right, is
  deleted. A match has at least one code unit, so the scan resumes after it.
\<close>

function removeAnnotations :: "jsstring \<Rightarrow> jsstring \<Rightarrow> jsstring" where
  "removeAnnotations kw [] = []"
| "removeAnnotations kw (c # cs) =
     (case annotationAt kw (c # cs) of
        Some n \<Rightarrow> removeAnnotations kw (drop (n - 1) cs)
      | None \<Rightarrow> c # removeAnnotations kw cs)"
  by pat_completeness auto
termination
  by (relation "measure (\<lambda>(kw, s). length s)") auto

text \<open>\<open>s.replace(/\s+/g, " ")\<close>: every run of white space becomes one space.\<close>

function collapseSpaces :: "jsstring \<Rightarrow> jsstring" where
  "collapseSpaces [] = []"
| "collapseSpaces (c # cs) =
     (if isSpaceChar c then 32 # collapseSpaces (dropWhile isSpaceChar cs)
      else c # collapseSpaces cs)"
  by pat_completeness auto
termination
  by (relation "measure length") (auto simp: length_dropWhile_le less_Suc_eq_le)

definition trim :: "jsstring \<Rightarrow> jsstring" where
  "trim s = rev (dropWhile isSpaceChar (rev (dropWhile isSpaceChar s)))"

text \<open>\<open>cleanQuery\<close>, lines 310 to 317.\<close>

definition cleanQuery :: "jsstring \<Rightarrow> jsstring" where
  "cleanQuery text =
     trim (collapseSpaces
       (removeAnnotations (js ''ft'')
         (removeAnnotations (js ''feat'')
           (map (\<lambda>c. if c = 45 then 32 else c) text))))"

text \<open>
  The third alternative of the separator of line 566, as the file is stored: the three
  code units U+201A, U+00C4, U+00EC (the bytes of an en dash read in another
  encoding). Under the \<open>i\<close> flag the two letters among them match in either case
  (U+00E4 for U+00C4, U+00CC for U+00EC).
\<close>

definition dashMarkAt :: "jsstring \<Rightarrow> bool" where
  "dashMarkAt r =
     (case r of
        a # b # c # rest \<Rightarrow> a = 8218 \<and> (b = 196 \<or> b = 228) \<and> (c = 236 \<or> c = 204)
      | _ \<Rightarrow> False)"

text \<open>
  The separator \<open>/\s+(?:by|-|\<dots>)\s+/i\<close> of line 566 tried at the front of \<open>s\<close>: a
  run of white space, one of the three marks (\<open>by\<close> in any case, a hyphen, or the
  three code units above), a run of white space. Both runs are taken whole, since no
  mark begins with white space. The result is the length of the match.
\<close>

definition separatorAt :: "jsstring \<Rightarrow> nat option" where
  "separatorAt s =
     (let ws1 = takeWhile isSpaceChar s; r1 = dropWhile isSpaceChar s;
          k = (if startsWithCI r1 (js ''by'') then 2
               else if startsWith r1 [45] then 1
               else if dashMarkAt r1 then 3 else 0);
          ws2 = takeWhile isSpaceChar (drop k r1)
      in if ws1 \<noteq> [] \<and> k \<noteq> 0 \<and> ws2 \<noteq> [] then Some (length ws1 + k + length ws2) else None)"

text \<open>
  \<open>query.split(/\s+(?:by|-|\<dots>)\s+/i)\<close> on a non-empty string: \<open>cur\<close> is the part being
  read, in reverse. A separator at the very end leaves an empty last part, as in
  JavaScript.
\<close>

function splitParts :: "jsstring \<Rightarrow> jsstring \<Rightarrow> jsstring list" where
  "splitParts cur [] = [rev cur]"
| "splitParts cur (c # cs) =
     (case separatorAt (c # cs) of
        Some n \<Rightarrow> rev cur # splitParts [] (drop (n - 1) cs)
      | None \<Rightarrow> splitParts (c # cur) cs)"
  by pat_completeness auto
termination
  by (relation "measure (\<lambda>(cur, s). length s)") auto

text \<open>\<open>parts.join(' ')\<close>.\<close>

fun joinSpace :: "jsstring list \<Rightarrow> jsstring" where
  "joinSpace [] = []"
| "joinSpace [p] = p"
| "joinSpace (p # q # ps) = p @ 32 # joinSpace (q # ps)"

section \<open>Classifying the input\<close>

text \<open>\<open>urlRegex = /^(http|https):\/\/[^ "]+$/\<close>, line 376.\<close>

definition matchesUrlRegex :: "jsstring \<Rightarrow> bool" where
  "matchesUrlRegex text =
     (let rest = (if startsWith text (js ''http://'') then Some (drop 7 text)
                  else if startsWith text (js ''https://'') then Some (drop 8 text)
                  else None)
      in case rest of
           None \<Rightarrow> False
         | Some r \<Rightarrow> r \<noteq> [] \<and> list_all (\<lambda>c. c \<noteq> 32 \<and> c \<noteq> 34) r)"

text \<open>
  \<open>dspRegex\<close>, line 375: \<open>http://\<close> or \<open>https://\<close> followed by one of seven host
  patterns, anywhere in the text. The hosts that end in \<open>\..*\<close> match as soon as the
  literal part up to the dot is there.
\<close>

definition dspHosts :: "jsstring list" where
  "dspHosts =
     [js ''open.spotify.com'', js ''www.deezer.'', js ''link.deezer.'', js ''music.apple.com'',
      js ''tidal.com'', js ''music.youtube.com'', js ''music.amazon.'']"

definition matchesDspRegex :: "jsstring \<Rightarrow> bool" where
  "matchesDspRegex text =
     list_ex (\<lambda>h. includesStr text (js ''http://'' @ h) \<or> includesStr text (js ''https://'' @ h))
       dspHosts"

text \<open>\<open>/youtube\.com|youtu\.be/\<close>, lines 460 and 463.\<close>

definition matchesYoutube :: "jsstring \<Rightarrow> bool" where
  "matchesYoutube text = (includesStr text (js ''youtube.com'') \<or> includesStr text (js ''youtu.be''))"

section \<open>The world around the handler\<close>

text \<open>
  \<open>handleSearchMode\<close> talks to the chat transport, the file system, the \<open>yt-dlp\<close>
  binary, three HTTP catalogues, the muxer and the logger. What it does to them is
  recorded in a state; what they answer is a parameter.
\<close>

datatype source = Youtube | Soundcloud | Archive

text \<open>The values an \<open>Error\<close> caught at the top level can be.\<close>

datatype error =
    TransportError
  | InstallError
  | UndefinedUrlError
  | YtDlpError
  | AudioMissingError
  | CoverMissingError
  | AnimationError
  | MergeError
  | MergeOutputError
  | LinkError
  | SpawnError

text \<open>The replies of the bot, one constructor for each text the source sends.\<close>

datatype message =
    MsgNonMusicLink
  | MsgLinkTypeUnsupported string
  | MsgReadingLink
  | MsgSongSpotted
  | MsgAmazonTricky
  | MsgCouldntReadLink
  | MsgProcessingLink
  | MsgProcessingYouTubeLink
  | MsgNoMatch
  | MsgFound "jsstring option"
  | MsgMerging
  | MsgUploading
  | MsgError error

text \<open>
  The calls that leave the process, in the order they are made. \<open>YtDlpDumpJson\<close> is
  the \<open>execFile\<close> of \<open>getMetadata\<close> with its first argument and whether the Android
  client was forced; \<open>YtDlpExtractAudio\<close> is the download of line 645.
\<close>

datatype event =
    SendMessage message
  | SendVideo "jsstring option"
  | FetchPage jsstring
  | InstallYtDlp
  | DeezerApiSearch jsstring
  | YtDlpDeezer jsstring
  | YtDlpDumpJson jsstring bool
  | ArchiveSearch jsstring
  | SpotifyTokenRequest
  | SpotifySearch jsstring
  | DeezerCoverSearch jsstring
  | DownloadCover jsstring
  | YtDlpExtractAudio jsstring bool
  | StartAnimation
  | MergeAudioImage

datatype loglevel = Info | Warn | Err

text \<open>
  The files the handler touches, all in \<open>os.tmpdir()\<close>. The time stamps in the names
  of the temporary files are left out.
\<close>

datatype path = LockFile int | YtDlpBinary | CookieFile | AudioFile | ImageFile | OutputFile

datatype filestate = Missing | Empty | NonEmpty

record world =
  files :: "path \<Rightarrow> filestate"
  spotifyTokenCache :: "jsstring option"
  spotifyTokenExpiry :: int
  trace :: "event list"
  logged :: "loglevel list"

text \<open>The parsed JSON that \<open>yt-dlp --dump-json\<close> prints.\<close>

record ytdlp_json =
  json_title :: "jsstring option"
  json_webpage_url :: "jsstring option"
  json_url :: "jsstring option"
  json_duration :: "rat option"
  json_extractor :: "jsstring option"

text \<open>
  How a call of \<open>execFile\<close> on the \<open>yt-dlp\<close> binary ends inside the promise that
  wraps it: \<open>execFile\<close> itself throws (the process cannot be spawned), so that the
  promise is rejected; or the callback runs with an error or with output that does not
  parse, and resolves with \<open>null\<close>; or the callback parses the JSON that was printed.
\<close>

datatype tool_result = SpawnFailed | NoResult | Printed ytdlp_json

text \<open>The first track of a Deezer API search; \<open>dz_id\<close> is the id as the template literal prints it.\<close>

record deezer_track =
  dz_id :: jsstring
  dz_title :: jsstring
  dz_artist_name :: jsstring
  dz_duration :: "rat option"

text \<open>What lines 407 to 444 make of a streaming-service page.\<close>

record link_info =
  link_trackNameForCheck :: jsstring
  link_artistForCheck :: "jsstring option"
  link_query :: jsstring

text \<open>
  The answers of the collaborators. Each field stands for one call site and is a
  function of the arguments of the call; for the HTTP requests \<open>None\<close> is a request
  that throws or answers with nothing usable, which the source treats alike.
  \<^item> \<open>sendMessage_ok\<close>, \<open>sendVideo_ok\<close>: whether the transport accepts the reply.
  \<^item> \<open>readLink\<close>: the page fetch of line 407 together with the title surgery after
    it (HTML title, \<open>he.decode\<close>, the chain of suffix patterns, the split into track
    and artist, \<open>cleanQuery\<close>); no property below looks inside it, so any outcome is
    allowed. \<open>None\<close> is the \<open>throw\<close> of line 448 or a failed request.
  \<^item> \<open>ytdlpJson\<close>: the \<open>execFile\<close> of \<open>getMetadata\<close>, by query and forced source;
    \<open>ytdlpDeezer\<close>: the one of \<open>downloadFromDeezer\<close>, by track URL.
  \<^item> \<open>installYtDlp_ok\<close>: whether the download of the binary and its \<open>chmod\<close> succeed.
  \<^item> \<open>nowCheck\<close>, \<open>nowStore\<close>: the two readings of \<open>Date.now()\<close> in \<open>getSpotifyToken\<close>.
  The proxy list only adds an argument to the two \<open>yt-dlp\<close> calls and is left out.
\<close>

record env =
  DEEZER_ARL :: "jsstring option"
  SPOTIFY_CLIENT_ID :: "jsstring option"
  SPOTIFY_CLIENT_SECRET :: "jsstring option"
  sendMessage_ok :: "message \<Rightarrow> bool"
  sendVideo_ok :: bool
  readLink :: "jsstring \<Rightarrow> link_info option"
  installYtDlp_ok :: bool
  deezerApi :: "jsstring \<Rightarrow> deezer_track option"
  ytdlpDeezer :: "jsstring \<Rightarrow> tool_result"
  ytdlpJson :: "jsstring \<Rightarrow> source option \<Rightarrow> tool_result"
  archiveApi :: "jsstring \<Rightarrow> archive_doc list option"
  spotifyTokenApi :: "(jsstring option \<times> int) option"
  spotifySearchApi :: "jsstring \<Rightarrow> jsstring \<Rightarrow> jsstring option"
  deezerCoverApi :: "jsstring \<Rightarrow> jsstring option"
  nowCheck :: int
  nowStore :: int
  coverDownload :: "jsstring \<Rightarrow> filestate"
  ytdlpExtract :: "jsstring \<Rightarrow> filestate option"
  startAnimation_ok :: bool
  mergeAudioImage :: "filestate option"

subsection \<open>Sequencing\<close>

text \<open>
  A step of the handler reads and changes the world and either yields a value or
  throws: \<open>Inl\<close> is a thrown error, as a rejected promise is after \<open>await\<close>.
\<close>

type_synonym 'a action = "world \<Rightarrow> (error + 'a) \<times> world"

definition ret :: "'a \<Rightarrow> 'a action" where
  "ret x = (\<lambda>w. (Inr x, w))"

definition throwErr :: "error \<Rightarrow> 'a action" where
  "throwErr e = (\<lambda>w. (Inl e, w))"

definition andThen :: "'a action \<Rightarrow> ('a \<Rightarrow> 'b action) \<Rightarrow> 'b action" where
  "andThen m f = (\<lambda>w. case m w of (Inl e, w') \<Rightarrow> (Inl e, w') | (Inr x, w') \<Rightarrow> f x w')"

definition next_do :: "unit action \<Rightarrow> 'b action \<Rightarrow> 'b action" where
  "next_do m n = andThen m (\<lambda>_. n)"

definition tryCatch :: "'a action \<Rightarrow> (error \<Rightarrow> 'a action) \<Rightarrow> 'a action" where
  "tryCatch m handler = (\<lambda>w. case m w of (Inl e, w') \<Rightarrow> handler e w' | (Inr x, w') \<Rightarrow> (Inr x, w'))"

definition emit :: "event \<Rightarrow> unit action" where
  "emit ev = (\<lambda>w. (Inr (), w\<lparr>trace := trace w @ [ev]\<rparr>))"

definition logLine :: "loglevel \<Rightarrow> unit action" where
  "logLine l = (\<lambda>w. (Inr (), w\<lparr>logged := logged w @ [l]\<rparr>))"

definition setFile :: "path \<Rightarrow> filestate \<Rightarrow> unit action" where
  "setFile p st = (\<lambda>w. (Inr (), w\<lparr>files := (files w)(p := st)\<rparr>))"

text \<open>\<open>if (fs.existsSync(p)) fs.unlinkSync(p)\<close>.\<close>

definition unlinkIfExists :: "path \<Rightarrow> unit action" where
  "unlinkIfExists p = (\<lambda>w. if files w p \<noteq> Missing then setFile p Missing w else (Inr (), w))"

text \<open>\<open>await bot.sendMessage(chatId, m)\<close>: the attempt is recorded, and a refusal throws.\<close>

definition sendMessage :: "env \<Rightarrow> message \<Rightarrow> unit action" where
  "sendMessage E m =
     next_do (emit (SendMessage m)) (if sendMessage_ok E m then ret () else throwErr TransportError)"

section \<open>The helpers of the pipeline\<close>

text \<open>\<open>a || b\<close> on strings that may be \<open>undefined\<close>, and on numbers.\<close>

definition orElse :: "jsstring option \<Rightarrow> jsstring option \<Rightarrow> jsstring option" where
  "orElse a b = (if truthy a then a else b)"

fun truthyNum :: "rat option \<Rightarrow> bool" where
  "truthyNum None = False"
| "truthyNum (Some d) = (d \<noteq> 0)"

definition orElseNum :: "rat option \<Rightarrow> rat option \<Rightarrow> rat option" where
  "orElseNum a b = (if truthyNum a then a else b)"

text \<open>
  \<open>ensureYtDlp\<close>, lines 34 to 43, with \<open>downloadFile\<close>, lines 17 to 31.
  \<open>downloadFile\<close> opens the write stream on the path before it sends the request,
  so a download that fails has already created the file: the error leaves an empty
  binary behind, which \<open>existsSync\<close> of a later run takes for the installed one.
\<close>

definition ensureYtDlp :: "env \<Rightarrow> unit action" where
  "ensureYtDlp E =
     (\<lambda>w. if files w YtDlpBinary = Missing then
             next_do (emit InstallYtDlp)
               (if installYtDlp_ok E then setFile YtDlpBinary NonEmpty
                else next_do (setFile YtDlpBinary Empty) (throwErr InstallError)) w
           else (Inr (), w))"

text \<open>\<open>getDeezerCover\<close>, lines 46 to 57.\<close>

definition getDeezerCover :: "env \<Rightarrow> jsstring \<Rightarrow> jsstring option action" where
  "getDeezerCover E query = next_do (emit (DeezerCoverSearch query)) (ret (deezerCoverApi E query))"

text \<open>\<open>getSpotifyToken\<close>, lines 63 to 96, with the token cache of lines 60 and 61.\<close>

definition getSpotifyToken :: "env \<Rightarrow> jsstring option action" where
  "getSpotifyToken E =
     (\<lambda>w. if \<not> truthy (SPOTIFY_CLIENT_ID E) \<or> \<not> truthy (SPOTIFY_CLIENT_SECRET E) then (Inr None, w)
           else if truthy (spotifyTokenCache w) \<and> nowCheck E < spotifyTokenExpiry w then
             (Inr (spotifyTokenCache w), w)
           else
             next_do (emit SpotifyTokenRequest)
               (case spotifyTokenApi E of
                  None \<Rightarrow> ret None
                | Some (access_token, expires_in) \<Rightarrow>
                    (\<lambda>w'. (Inr access_token,
                            w'\<lparr>spotifyTokenCache := access_token,
                               spotifyTokenExpiry := nowStore E + expires_in * 1000 - 60000\<rparr>))) w)"

text \<open>\<open>getSpotifyCover\<close>, lines 99 to 125. \<open>spotifySearchApi\<close> answers with the URL of the first image of the first track.\<close>

definition getSpotifyCover :: "env \<Rightarrow> jsstring \<Rightarrow> jsstring option \<Rightarrow> jsstring option action" where
  "getSpotifyCover E trackName artistName =
     andThen (getSpotifyToken E) (\<lambda>token.
       if \<not> truthy token then ret None
       else
         let query = (if truthy artistName
                      then js ''track:'' @ trackName @ js '' artist:'' @ the artistName
                      else trackName)
         in next_do (emit (SpotifySearch query))
              (let coverUrl = spotifySearchApi E (the token) query
               in if truthy coverUrl then ret coverUrl else ret None))"

text \<open>The object that both \<open>yt-dlp\<close> callbacks build from the parsed JSON.\<close>

definition metaOfJson :: "ytdlp_json \<Rightarrow> metadata" where
  "metaOfJson data =
     \<lparr> meta_title = json_title data,
       meta_url = orElse (json_webpage_url data) (json_url data),
       meta_duration = json_duration data,
       meta_extractor = json_extractor data \<rparr>"

text \<open>
  \<open>downloadFromDeezer\<close>, lines 179 to 246, with \<open>createDeezerCookieFile\<close>: the cookie
  file is written before the \<open>yt-dlp\<close> call and removed in its callback. The promise
  around the call is returned without \<open>await\<close>, so when \<open>execFile\<close> throws, the
  rejection passes the \<open>catch\<close> of line 242 and reaches the caller; the callback never
  runs then and the cookie file stays.
\<close>

definition downloadFromDeezer :: "env \<Rightarrow> jsstring \<Rightarrow> metadata option action" where
  "downloadFromDeezer E query =
     (if \<not> truthy (DEEZER_ARL E) then ret None
      else
        next_do (emit (DeezerApiSearch query))
          (case deezerApi E query of
             None \<Rightarrow> ret None
           | Some track \<Rightarrow>
               let trackUrl = js ''https://www.deezer.com/track/'' @ dz_id track
               in next_do (setFile CookieFile NonEmpty)
                    (next_do (emit (YtDlpDeezer trackUrl))
                       (case ytdlpDeezer E trackUrl of
                          SpawnFailed \<Rightarrow> throwErr SpawnError
                        | NoResult \<Rightarrow> next_do (unlinkIfExists CookieFile) (ret None)
                        | Printed data \<Rightarrow>
                            next_do (unlinkIfExists CookieFile)
                              (ret (Some
                                 \<lparr> meta_title = orElse (json_title data)
                                     (Some (dz_artist_name track @ js '' - '' @ dz_title track)),
                                   meta_url = orElse (orElse (json_webpage_url data) (json_url data))
                                     (Some trackUrl),
                                   meta_duration = orElseNum (json_duration data) (dz_duration track),
                                   meta_extractor = Some (js ''deezer'') \<rparr>))))))"

text \<open>
  The \<open>execFile\<close> part of \<open>getMetadata\<close>, lines 259 to 306, for a forced source other
  than \<open>'archive'\<close>. When \<open>execFile\<close> throws inside the promise, the promise is
  rejected and the error reaches the caller.
\<close>

definition isHttpUrl :: "jsstring \<Rightarrow> bool" where
  "isHttpUrl s = (startsWith s (js ''http://'') \<or> startsWith s (js ''https://''))"

definition getMetadataTool :: "env \<Rightarrow> jsstring \<Rightarrow> source option \<Rightarrow> metadata option action" where
  "getMetadataTool E queryOrUrl forceSource =
     (let searchPrefix = (if forceSource = Some Youtube then js ''ytsearch1:''
                          else if forceSource = Some Soundcloud then js ''scsearch1:'' else []);
          isUrl = isHttpUrl queryOrUrl;
          finalQuery = (if isUrl then queryOrUrl else searchPrefix @ queryOrUrl);
          android = (forceSource = Some Youtube
                     \<or> (isUrl \<and> (includesStr queryOrUrl (js ''youtube.com'')
                                  \<or> includesStr queryOrUrl (js ''youtu.be''))))
      in next_do (emit (YtDlpDumpJson finalQuery android))
           (case ytdlpJson E queryOrUrl forceSource of
              SpawnFailed \<Rightarrow> throwErr SpawnError
            | NoResult \<Rightarrow> ret None
            | Printed data \<Rightarrow> ret (Some (metaOfJson data))))"

text \<open>
  \<open>getMetadata\<close>, lines 249 to 307: the archive source searches first and then asks
  \<open>yt-dlp\<close> about the page of the accepted item, with no forced source.
\<close>

definition getMetadata :: "env \<Rightarrow> jsstring \<Rightarrow> source option \<Rightarrow> metadata option action" where
  "getMetadata E queryOrUrl forceSource =
     (if forceSource = Some Archive then
        next_do (emit (ArchiveSearch queryOrUrl))
          (case searchArchiveOrg (archiveApi E) queryOrUrl of
             Some archiveMeta \<Rightarrow> getMetadataTool E (orEmpty (meta_url archiveMeta)) None
           | None \<Rightarrow> ret None)
      else getMetadataTool E queryOrUrl forceSource)"

section \<open>The handler\<close>

text \<open>
  The variables that the analysis of the input (lines 368 to 469) leaves for the rest
  of \<open>handleSearchMode\<close>.
\<close>

record query_context =
  ctx_query :: jsstring
  ctx_trackNameForCheck :: jsstring
  ctx_artistForCheck :: "jsstring option"
  ctx_directUrl :: "jsstring option"

text \<open>Lines 406 to 459: the inner \<open>try\<close> around the page fetch, and its \<open>catch\<close>.\<close>

definition readLinkMetadata :: "env \<Rightarrow> int \<Rightarrow> jsstring \<Rightarrow> query_context option action" where
  "readLinkMetadata E chatId text =
     tryCatch
       (next_do (emit (FetchPage text))
          (case readLink E text of
             Some info \<Rightarrow>
               next_do (sendMessage E MsgSongSpotted)
                 (ret (Some \<lparr> ctx_query = link_query info,
                               ctx_trackNameForCheck = link_trackNameForCheck info,
                               ctx_artistForCheck = link_artistForCheck info,
                               ctx_directUrl = None \<rparr>))
           | None \<Rightarrow> throwErr LinkError))
       (\<lambda>e. next_do (sendMessage E (if includesStr text (js ''amazon'') then MsgAmazonTricky
                                      else MsgCouldntReadLink))
               (next_do (unlinkIfExists (LockFile chatId)) (ret None)))"

text \<open>
  Lines 374 to 469. \<open>None\<close> is a \<open>return\<close> out of the handler; otherwise the
  variables are handed on.
\<close>

definition classifyInput :: "env \<Rightarrow> int \<Rightarrow> jsstring \<Rightarrow> query_context option action" where
  "classifyInput E chatId text =
     (if matchesUrlRegex text \<and> \<not> matchesDspRegex text then
        next_do (sendMessage E MsgNonMusicLink)
          (next_do (unlinkIfExists (LockFile chatId))
             (next_do (logLine Warn) (ret None)))
      else if matchesDspRegex text then
        (if includesStr text (js ''/album/'') \<or> includesStr text (js ''/playlist/'') then
           next_do (sendMessage E (MsgLinkTypeUnsupported
                      (if includesStr text (js ''/album/'') then ''album'' else ''playlist'')))
             (next_do (unlinkIfExists (LockFile chatId))
                (next_do (logLine Warn) (ret None)))
         else
           next_do (sendMessage E MsgReadingLink) (readLinkMetadata E chatId text))
      else if matchesUrlRegex text \<and> \<not> matchesYoutube text then
        next_do (sendMessage E MsgProcessingLink)
          (ret (Some \<lparr> ctx_query = text, ctx_trackNameForCheck = text,
                        ctx_artistForCheck = None, ctx_directUrl = Some text \<rparr>))
      else if matchesYoutube text then
        next_do (sendMessage E MsgProcessingYouTubeLink)
          (ret (Some \<lparr> ctx_query = text, ctx_trackNameForCheck = text,
                        ctx_artistForCheck = None, ctx_directUrl = Some text \<rparr>))
      else
        ret (Some \<lparr> ctx_query = cleanQuery text, ctx_trackNameForCheck = text,
                      ctx_artistForCheck = None, ctx_directUrl = None \<rparr>))"

text \<open>Lines 486 to 498: the Deezer tier, tried only with a credential.\<close>

definition deezerTier :: "env \<Rightarrow> query_context \<Rightarrow> metadata option action" where
  "deezerTier E ctx =
     (if truthy (DEEZER_ARL E) then
        next_do (logLine Info)
          (andThen (downloadFromDeezer E (ctx_query ctx)) (\<lambda>meta.
             next_do (logLine (if meta \<noteq> None then Info else Warn)) (ret meta)))
      else ret None)"

text \<open>Lines 500 to 525: the SoundCloud tier with its two checks.\<close>

definition soundcloudTier :: "env \<Rightarrow> query_context \<Rightarrow> metadata option action" where
  "soundcloudTier E ctx =
     next_do (logLine Info)
       (andThen (getMetadata E (ctx_query ctx) (Some Soundcloud)) (\<lambda>meta.
          case meta of
            None \<Rightarrow> ret None
          | Some m \<Rightarrow>
              let isMatch = isStrictMatch (orEmpty (meta_title m)) (ctx_trackNameForCheck ctx)
                              (ctx_artistForCheck ctx);
                  isPreview = (truthyNum (meta_duration m) \<and> the (meta_duration m) < 45)
              in next_do (if \<not> isMatch then logLine Warn else ret ())
                   (next_do (if isPreview then logLine Warn else ret ())
                      (if \<not> isMatch \<or> isPreview then ret None
                       else next_do (logLine Info) (ret (Some m))))))"

text \<open>Lines 527 to 545: the two fall-backs, neither with a check of its own in the handler.\<close>

definition fallbackTier :: "env \<Rightarrow> query_context \<Rightarrow> source \<Rightarrow> metadata option action" where
  "fallbackTier E ctx src =
     next_do (logLine Info)
       (andThen (getMetadata E (ctx_query ctx) (Some src)) (\<lambda>meta.
          next_do (if meta \<noteq> None then logLine Info else ret ()) (ret meta)))"

text \<open>Lines 482 to 545: the tiers in their order, each entered only while \<open>meta\<close> is \<open>null\<close>.\<close>

definition searchTiers :: "env \<Rightarrow> query_context \<Rightarrow> metadata option action" where
  "searchTiers E ctx =
     andThen (deezerTier E ctx) (\<lambda>meta.
     andThen (if meta = None then soundcloudTier E ctx else ret meta) (\<lambda>meta.
     andThen (if meta = None then fallbackTier E ctx Youtube else ret meta) (\<lambda>meta.
       if meta = None then fallbackTier E ctx Archive else ret meta)))"

text \<open>
  Lines 477 to 555: the pair \<open>(videoUrl, videoTitle)\<close>, or \<open>None\<close> for the \<open>return\<close>
  after the reply that nothing was found.
\<close>

definition resolveAudio ::
  "env \<Rightarrow> int \<Rightarrow> query_context \<Rightarrow> (jsstring option \<times> jsstring option) option action" where
  "resolveAudio E chatId ctx =
     (if truthy (ctx_directUrl ctx) then
        andThen (getMetadata E (the (ctx_directUrl ctx)) None) (\<lambda>meta.
          ret (Some (ctx_directUrl ctx,
                     case meta of Some m \<Rightarrow> meta_title m | None \<Rightarrow> Some (js ''Unknown Track''))))
      else
        andThen (searchTiers E ctx) (\<lambda>meta.
          case meta of
            None \<Rightarrow>
              next_do (logLine Warn)
                (next_do (sendMessage E MsgNoMatch)
                   (next_do (unlinkIfExists (LockFile chatId)) (ret None)))
          | Some m \<Rightarrow> ret (Some (meta_url m, meta_title m))))"

text \<open>Lines 558 to 573: the track and the artist that the cover search uses.\<close>

definition coverNames :: "jsstring \<Rightarrow> jsstring option \<times> jsstring option" where
  "coverNames query =
     (if query \<noteq> [] then
        (let parts = splitParts [] query
         in if length parts \<ge> 2 then (Some (trim (hd parts)), Some (trim (joinSpace (tl parts))))
            else (Some (trim query), None))
      else (None, None))"

definition placeholderCover :: jsstring where
  "placeholderCover = js ''https://placehold.co/600x600/1a1a1a/ffffff?text=No+Cover''"

text \<open>Lines 558 to 597: Spotify, then Deezer, then the placeholder.\<close>

definition findCover :: "env \<Rightarrow> jsstring \<Rightarrow> jsstring action" where
  "findCover E query =
     (let trackName = fst (coverNames query); artistName = snd (coverNames query)
      in andThen (if truthy trackName then getSpotifyCover E (the trackName) artistName
                  else ret None) (\<lambda>coverUrl.
         andThen (if \<not> truthy coverUrl then getDeezerCover E query else ret coverUrl) (\<lambda>coverUrl.
           ret (if \<not> truthy coverUrl then placeholderCover else the coverUrl))))"

text \<open>Lines 689 to 706: the merge, its check of the output, and the inner \<open>catch\<close> that throws again.\<close>

definition mergeStep :: "env \<Rightarrow> unit action" where
  "mergeStep E =
     tryCatch
       (next_do (emit MergeAudioImage)
          (case mergeAudioImage E of
             None \<Rightarrow> throwErr MergeError
           | Some st \<Rightarrow>
               next_do (setFile OutputFile st)
                 (if st \<noteq> NonEmpty then throwErr MergeOutputError else logLine Info)))
       (\<lambda>e. next_do (logLine Err) (throwErr e))"

text \<open>Lines 708 to 721: upload, removal of the temporary files and of the lock.\<close>

definition sendAndCleanup :: "env \<Rightarrow> int \<Rightarrow> jsstring option \<Rightarrow> unit action" where
  "sendAndCleanup E chatId videoTitle =
     next_do (sendMessage E MsgUploading)
       (next_do (emit (SendVideo videoTitle))
          (if \<not> sendVideo_ok E then throwErr TransportError
           else
             next_do (unlinkIfExists ImageFile)
               (next_do (unlinkIfExists AudioFile)
                  (next_do (unlinkIfExists OutputFile)
                     (next_do (unlinkIfExists (LockFile chatId)) (logLine Info))))))"

text \<open>
  Lines 610 to 721, once the cover has been requested: the cover file, the audio
  download, the checks of both files, the merge and the upload.
\<close>

definition downloadAndMerge ::
  "env \<Rightarrow> int \<Rightarrow> jsstring option \<Rightarrow> jsstring option \<Rightarrow> jsstring \<Rightarrow> unit action" where
  "downloadAndMerge E chatId videoUrl videoTitle coverUrl =
     next_do (setFile ImageFile (coverDownload E coverUrl))
       (case videoUrl of
          None \<Rightarrow> throwErr UndefinedUrlError
        | Some url \<Rightarrow>
            next_do (emit (YtDlpExtractAudio url
                       (includesStr url (js ''youtube.com'') \<or> includesStr url (js ''youtu.be''))))
              (case ytdlpExtract E url of
                 None \<Rightarrow> throwErr YtDlpError
               | Some st \<Rightarrow>
                   next_do (setFile AudioFile st)
                     (next_do (unlinkIfExists OutputFile)
                        (\<lambda>w. if files w AudioFile \<noteq> NonEmpty then (Inl AudioMissingError, w)
                              else if files w ImageFile \<noteq> NonEmpty then (Inl CoverMissingError, w)
                              else
                                next_do (sendMessage E MsgMerging)
                                  (next_do (emit StartAnimation)
                                     (if \<not> startAnimation_ok E then throwErr AnimationError
                                      else next_do (mergeStep E)
                                             (sendAndCleanup E chatId videoTitle))) w))))"

text \<open>Lines 599 to 721: the notice that the track was found, then the download of the chosen cover and the rest.\<close>

definition deliver :: "env \<Rightarrow> int \<Rightarrow> jsstring option \<Rightarrow> jsstring option \<Rightarrow> jsstring \<Rightarrow> unit action" where
  "deliver E chatId videoUrl videoTitle coverUrl =
     next_do (sendMessage E (MsgFound videoTitle))
       (next_do (emit (DownloadCover coverUrl))
          (downloadAndMerge E chatId videoUrl videoTitle coverUrl))"

text \<open>The body of the outer \<open>try\<close>, lines 368 to 721.\<close>

definition handleBody :: "env \<Rightarrow> int \<Rightarrow> jsstring \<Rightarrow> unit action" where
  "handleBody E chatId text =
     andThen (classifyInput E chatId text) (\<lambda>c.
       case c of
         None \<Rightarrow> ret ()
       | Some ctx \<Rightarrow>
           next_do (ensureYtDlp E)
             (andThen (resolveAudio E chatId ctx) (\<lambda>r.
                case r of
                  None \<Rightarrow> ret ()
                | Some (videoUrl, videoTitle) \<Rightarrow>
                    andThen (findCover E (ctx_query ctx)) (\<lambda>coverUrl.
                      deliver E chatId videoUrl videoTitle coverUrl))))"

text \<open>The outer \<open>catch\<close>, lines 723 to 728: log, tell the user, then remove the lock.\<close>

definition topLevelCatch :: "env \<Rightarrow> int \<Rightarrow> error \<Rightarrow> unit action" where
  "topLevelCatch E chatId e =
     next_do (logLine Err)
       (next_do (sendMessage E (MsgError e)) (unlinkIfExists (LockFile chatId)))"

text \<open>
  \<open>handleSearchMode\<close>, lines 348 to 729, for a message of chat \<open>chatId\<close> whose
  \<open>msg.text\<close> is \<open>text\<close> (\<open>None\<close> when the message has none). \<open>Inr ()\<close> is a normal
  return and \<open>Inl e\<close> an error that leaves the handler.
\<close>

definition handleSearchMode :: "env \<Rightarrow> int \<Rightarrow> jsstring option \<Rightarrow> unit action" where
  "handleSearchMode E chatId text =
     (if \<not> truthy text then ret ()
      else
        next_do (logLine Info)
          (\<lambda>w. if files w (LockFile chatId) \<noteq> Missing then (Inr (), w)
                else next_do (setFile (LockFile chatId) NonEmpty)
                       (tryCatch (handleBody E chatId (the text)) (topLevelCatch E chatId)) w))"

section \<open>Concrete worlds for the examples\<close>

text \<open>A world with no file, no cached token and nothing recorded yet.\<close>

definition idleWorld :: world where
  "idleWorld = \<lparr> files = (\<lambda>p. Missing), spotifyTokenCache = None, spotifyTokenExpiry = 0,
                  trace = [], logged = [] \<rparr>"

text \<open>
  Collaborators with nothing configured and nothing to offer: no credential, every
  search empty, every reply refused by the transport (as for a user who has blocked
  the bot), while the tools that write files work.
\<close>

definition barrenEnv :: env where
  "barrenEnv =
     \<lparr> DEEZER_ARL = None, SPOTIFY_CLIENT_ID = None, SPOTIFY_CLIENT_SECRET = None,
       sendMessage_ok = (\<lambda>m. False), sendVideo_ok = True, readLink = (\<lambda>u. None),
       installYtDlp_ok = True, deezerApi = (\<lambda>q. None), ytdlpDeezer = (\<lambda>u. NoResult),
       ytdlpJson = (\<lambda>q s. NoResult), archiveApi = (\<lambda>q. None), spotifyTokenApi = None,
       spotifySearchApi = (\<lambda>t q. None), deezerCoverApi = (\<lambda>q. None), nowCheck = 0, nowStore = 0,
       coverDownload = (\<lambda>u. NonEmpty), ytdlpExtract = (\<lambda>u. Some NonEmpty),
       startAnimation_ok = True, mergeAudioImage = Some NonEmpty \<rparr>"

text \<open>The same collaborators behind a transport that accepts every reply.\<close>

definition friendlyEnv :: env where
  "friendlyEnv = barrenEnv\<lparr> sendMessage_ok := (\<lambda>m. True) \<rparr>"

text \<open>The variables that the analysis leaves for the plain query \<open>hello\<close>.\<close>

definition helloContext :: query_context where
  "helloContext = \<lparr> ctx_query = js ''hello'', ctx_trackNameForCheck = js ''hello'',
                     ctx_artistForCheck = None, ctx_directUrl = None \<rparr>"

text \<open>A SoundCloud answer whose title is exactly the query, with a duration of \<open>d\<close> seconds.\<close>

definition helloJson :: "rat \<Rightarrow> ytdlp_json" where
  "helloJson d = \<lparr> json_title = Some (js ''hello''),
                   json_webpage_url = Some (js ''https://soundcloud.com/a/hello''),
                   json_url = None, json_duration = Some d,
                   json_extractor = Some (js ''soundcloud'') \<rparr>"

definition exampleCover :: jsstring where
  "exampleCover = js ''https://cdn.example/cover.jpg''"

text \<open>Collaborators where only SoundCloud knows the track, and Deezer has a cover for it.\<close>

definition soundcloudEnv :: "rat \<Rightarrow> env" where
  "soundcloudEnv d =
     friendlyEnv\<lparr> ytdlpJson := (\<lambda>q s. if s = Some Soundcloud then Printed (helloJson d) else NoResult),
                  deezerCoverApi := (\<lambda>q. Some exampleCover) \<rparr>"

text \<open>
  Collaborators with a Deezer credential, where the Deezer catalogue answers every
  query with an unrelated track and every other source would answer too.
\<close>

definition deezerEnv :: env where
  "deezerEnv =
     friendlyEnv\<lparr> DEEZER_ARL := Some (js ''arl''),
                  deezerApi := (\<lambda>q. Some \<lparr> dz_id = js ''42'', dz_title = js ''Goodbye'',
                                            dz_artist_name = js ''Someone'', dz_duration = Some 200 \<rparr>),
                  ytdlpDeezer := (\<lambda>u. Printed \<lparr> json_title = None, json_webpage_url = None,
                                                 json_url = None, json_duration = None,
                                                 json_extractor = None \<rparr>),
                  ytdlpJson := (\<lambda>q s. Printed (helloJson 200)),
                  deezerCoverApi := (\<lambda>q. Some exampleCover) \<rparr>"

text \<open>
  Collaborators with a Spotify client whose token endpoint is down, while its search
  and the Deezer cover search both know a cover, and SoundCloud knows the track.
\<close>

definition spotifyCover :: jsstring where
  "spotifyCover = js ''https://i.scdn.example/image.jpg''"

definition tokenDownEnv :: env where
  "tokenDownEnv =
     (soundcloudEnv 200)\<lparr> SPOTIFY_CLIENT_ID := Some (js ''id''),
                           SPOTIFY_CLIENT_SECRET := Some (js ''secret''),
                           spotifyTokenApi := None,
                           spotifySearchApi := (\<lambda>t q. Some spotifyCover) \<rparr>"

text \<open>The idle world after an earlier run has cached a token that is still valid.\<close>

definition tokenCachedWorld :: world where
  "tokenCachedWorld = idleWorld\<lparr> spotifyTokenCache := Some (js ''tok''), spotifyTokenExpiry := 1000 \<rparr>"

section \<open>Observing the cover selection\<close>

text \<open>
  The cover of a run is the URL handed to \<open>downloadFile\<close> at line 610; these are the
  covers downloaded along a trace.
\<close>

fun coverSelection :: "event list \<Rightarrow> jsstring list" where
  "coverSelection [] = []"
| "coverSelection (DownloadCover u # es) = u # coverSelection es"
| "coverSelection (e # es) = coverSelection es"

text \<open>
  Two sets of collaborators give the same catalogue responses when they agree on the
  Spotify client, its token endpoint and search, the Deezer cover search, and the clock
  that the token cache is compared with.
\<close>

definition sameCatalogues :: "env \<Rightarrow> env \<Rightarrow> bool" where
  "sameCatalogues E1 E2 =
     (SPOTIFY_CLIENT_ID E1 = SPOTIFY_CLIENT_ID E2
      \<and> SPOTIFY_CLIENT_SECRET E1 = SPOTIFY_CLIENT_SECRET E2
      \<and> spotifyTokenApi E1 = spotifyTokenApi E2
      \<and> spotifySearchApi E1 = spotifySearchApi E2
      \<and> deezerCoverApi E1 = deezerCoverApi E2
      \<and> nowCheck E1 = nowCheck E2
      \<and> nowStore E1 = nowStore E2)"

text \<open>
  A step is quiet when it downloads no cover and leaves the token cache alone,
  whatever else it does and however it ends.
\<close>

definition quiet :: "'a action \<Rightarrow> bool" where
  "quiet m =
     (\<forall>w. coverSelection (trace (snd (m w))) = coverSelection (trace w)
          \<and> spotifyTokenCache (snd (m w)) = spotifyTokenCache w
          \<and> spotifyTokenExpiry (snd (m w)) = spotifyTokenExpiry w)"

text \<open>A step is cover-free when it downloads no cover (it may refresh the token).\<close>

definition coverFree :: "'a action \<Rightarrow> bool" where
  "coverFree m = (\<forall>w. coverSelection (trace (snd (m w))) = coverSelection (trace w))"

text \<open>
  Whether the body of the outer \<open>try\<close>, started in world \<open>w\<close>, resolves its audio:
  the analysis of the input hands on its variables, the binary is there or gets
  installed, and lines 477 to 555 come back with a URL and a title. The result is the
  query that the analysis left together with that title.
\<close>

definition bodyResolution ::
  "env \<Rightarrow> int \<Rightarrow> jsstring \<Rightarrow> world \<Rightarrow> (jsstring \<times> jsstring option) option" where
  "bodyResolution E chatId text w =
     (case classifyInput E chatId text w of
        (Inr (Some ctx), wc) \<Rightarrow>
          (case ensureYtDlp E wc of
             (Inr u, we) \<Rightarrow>
               (case resolveAudio E chatId ctx we of
                  (Inr (Some (videoUrl, videoTitle)), wr) \<Rightarrow> Some (ctx_query ctx, videoTitle)
                | _ \<Rightarrow> None)
           | _ \<Rightarrow> None)
      | _ \<Rightarrow> None)"

text \<open>
  The title with which a run of the handler that takes the lock resolves its audio, if
  it does: the body starts in the world where the first line is logged and the lock
  file written.
\<close>

definition resolvedTitle :: "env \<Rightarrow> int \<Rightarrow> jsstring \<Rightarrow> world \<Rightarrow> jsstring option option" where
  "resolvedTitle E chatId text w =
     map_option snd
       (bodyResolution E chatId text
          (w\<lparr>logged := logged w @ [Info], files := (files w)(LockFile chatId := NonEmpty)\<rparr>))"

text \<open>
  A step releases the lock of chat \<open>c\<close> on the results \<open>P\<close> when every normal
  return with such a result leaves the lock file absent.
\<close>

definition releasesLock :: "int \<Rightarrow> 'a action \<Rightarrow> ('a \<Rightarrow> bool) \<Rightarrow> bool" where
  "releasesLock c m P =
     (\<forall>w x w'. m w = (Inr x, w') \<longrightarrow> P x \<longrightarrow> files w' (LockFile c) = Missing)"

section \<open>Properties of the relevance matcher\<close>

lemma includesStr_Nil [simp]: "includesStr s []"
  by (cases s) auto

lemma startsWith_prefix: "startsWith s t \<longleftrightarrow> prefix t s"
  by (induction s t rule: startsWith.induct) auto

lemma includesStr_sublist: "includesStr s t \<longleftrightarrow> sublist t s"
  by (induction s) (auto simp: startsWith_prefix sublist_Cons_right)

lemma clean_Nil [simp]: "stripNonWord (toLowerCase []) = []"
  by (simp add: toLowerCase_def stripNonWord_def)

lemmas matcher_eval =
  isStrictMatch_def js_def toLowerCase_def lowerUnit_def stripNonWord_def isWordChar_def
  isSpaceChar_def Let_def

lemma stripNonWord_append: "stripNonWord (a @ b) = stripNonWord a @ stripNonWord b"
  by (simp add: stripNonWord_def)

lemma lowerUnit_other:
  "\<not> isWordChar c \<Longrightarrow> lowerUnit c = (if c = 304 then [105, 775] else if c = 8490 then [107] else [c])"
  by (simp add: lowerUnit_def isWordChar_def)

lemma clean_unit:
  "\<not> isWordChar c \<Longrightarrow> \<not> isSpaceChar c \<Longrightarrow> c \<noteq> 304 \<Longrightarrow> c \<noteq> 8490 \<Longrightarrow> stripNonWord (lowerUnit c) = []"
  by (simp add: lowerUnit_other stripNonWord_def)

lemma clean_empty:
  "\<forall>c\<in>set t. \<not> isWordChar c \<and> \<not> isSpaceChar c \<and> c \<noteq> 304 \<and> c \<noteq> 8490 \<Longrightarrow>
     stripNonWord (toLowerCase t) = []"
proof (induction t)
  case Nil
  then show ?case by simp
next
  case (Cons c t)
  have "toLowerCase (c # t) = lowerUnit c @ toLowerCase t"
    by (simp add: toLowerCase_def)
  with Cons show ?case
    by (simp add: stripNonWord_append clean_unit)
qed

text \<open>
  C2, as stated, fails: the rules of the claim have no guard on empty arguments, and
  the code answers \<open>false\<close> for an empty track name where the rules answer \<open>true\<close>
  (every string contains the empty string).
\<close>

theorem isStrictMatch_empty_track_counterexample:
  "isStrictMatch (js ''a'') [] None = False \<and> isStrictMatch_spec (js ''a'') [] None = True"
  by (simp add: isStrictMatch_def isStrictMatch_spec_def js_def)

text \<open>
  C2, amended: \<open>isStrictMatch\<close> answers \<open>false\<close> when either raw argument is empty,
  and otherwise follows exactly the rules of the specification (lower-casing and
  stripping, the short-title rule with its inclusive bound of three, the soft artist
  rule, the plain substring rule). The three examples of the specification hold.
\<close>

theorem isStrictMatch_refines_spec:
  "isStrictMatch r t a = (r \<noteq> [] \<and> t \<noteq> [] \<and> isStrictMatch_spec r t a)
   \<and> isStrictMatch (js ''40 - Someone Else'') (js ''40'') (Some (js ''Kijan Boone'')) = False
   \<and> isStrictMatch (js ''40 - Kijan Boone'') (js ''40'') (Some (js ''Kijan Boone'')) = True
   \<and> isStrictMatch (js ''Bohemian Rhapsody (Live)'') (js ''Bohemian Rhapsody'')
        (Some (js ''Someone Else'')) = True"
proof -
  have general: "isStrictMatch r t a = (r \<noteq> [] \<and> t \<noteq> [] \<and> isStrictMatch_spec r t a)"
  proof (cases a)
    case None
    then show ?thesis
      by (simp add: isStrictMatch_def isStrictMatch_spec_def Let_def)
  next
    case (Some artist)
    show ?thesis
    proof (cases "artist = []")
      case True
      with Some show ?thesis
        by (simp add: isStrictMatch_def isStrictMatch_spec_def Let_def)
    next
      case False
      with Some show ?thesis
        by (simp add: isStrictMatch_def isStrictMatch_spec_def Let_def)
    qed
  qed
  have e1: "isStrictMatch (js ''40 - Someone Else'') (js ''40'') (Some (js ''Kijan Boone'')) = False"
    by (simp add: matcher_eval)
  have e2: "isStrictMatch (js ''40 - Kijan Boone'') (js ''40'') (Some (js ''Kijan Boone'')) = True"
    by (simp add: matcher_eval)
  have e3: "isStrictMatch (js ''Bohemian Rhapsody (Live)'') (js ''Bohemian Rhapsody'')
        (Some (js ''Someone Else'')) = True"
    by (simp add: matcher_eval)
  from general e1 e2 e3 show ?thesis by simp
qed

theorem isStrictMatch_refines_spec_witness:
  "isStrictMatch (js ''Yesterday - The Beatles'') (js ''Yesterday'') (Some (js ''Beatles''))
     = isStrictMatch_spec (js ''Yesterday - The Beatles'') (js ''Yesterday'') (Some (js ''Beatles''))"
proof -
  have "js ''Yesterday - The Beatles'' \<noteq> []" and "js ''Yesterday'' \<noteq> []"
    by (simp_all add: js_def)
  with isStrictMatch_refines_spec
         [of "js ''Yesterday - The Beatles''" "js ''Yesterday''" "Some (js ''Beatles'')"]
  show ?thesis by simp
qed

text \<open>
  C10, as stated, fails: the Kelvin sign U+212A is neither a word nor a space
  character, yet \<open>toLowerCase\<close> turns it into \<open>k\<close>, so a track name made of it does
  not clean to the empty string and is looked for in the title.
\<close>

theorem isStrictMatch_kelvin_counterexample:
  "js ''a'' \<noteq> [] \<and> [8490] \<noteq> ([] :: jsstring) \<and> \<not> isWordChar 8490 \<and> \<not> isSpaceChar 8490
   \<and> isStrictMatch (js ''a'') [8490] None = False"
  by (simp add: isStrictMatch_def js_def toLowerCase_def lowerUnit_def stripNonWord_def
        isWordChar_def isSpaceChar_def)

text \<open>
  C10, amended: for every non-empty result title and every non-empty track name made
  only of code units that are neither word nor space characters and are not U+0130 or
  U+212A (the two whose lower case is an ASCII letter), \<open>isStrictMatch\<close> without an
  artist answers \<open>true\<close>: the guard looks at the raw arguments, the track cleans to the
  empty string, and every string contains the empty string.
\<close>

theorem isStrictMatch_symbols_only:
  assumes "r \<noteq> []" and "t \<noteq> []"
    and "\<forall>c\<in>set t. \<not> isWordChar c \<and> \<not> isSpaceChar c \<and> c \<noteq> 304 \<and> c \<noteq> 8490"
  shows "stripNonWord (toLowerCase t) = [] \<and> isStrictMatch r t None"
  using assms by (simp add: isStrictMatch_def clean_empty Let_def)

theorem isStrictMatch_symbols_only_witness:
  "stripNonWord (toLowerCase (js ''?!'')) = [] \<and> isStrictMatch (js ''Hello'') (js ''?!'') None"
proof -
  have h1: "js ''Hello'' \<noteq> []" and h2: "js ''?!'' \<noteq> []"
    by (simp_all add: js_def)
  have h3: "\<forall>c\<in>set (js ''?!''). \<not> isWordChar c \<and> \<not> isSpaceChar c \<and> c \<noteq> 304 \<and> c \<noteq> 8490"
    by (simp add: js_def isWordChar_def isSpaceChar_def)
  from isStrictMatch_symbols_only [OF h1 h2 h3] show ?thesis .
qed

section \<open>Properties of the Internet Archive search\<close>

lemma firstRelevant_none:
  "\<forall>d\<in>set docs. \<not> isStrictMatch (orEmpty (doc_title d)) q None \<Longrightarrow> firstRelevant q docs = None"
  by (induction docs) simp_all

lemma firstRelevant_first:
  "\<forall>p\<in>set pre. \<not> isStrictMatch (orEmpty (doc_title p)) q None \<Longrightarrow>
   isStrictMatch (orEmpty (doc_title d)) q None \<Longrightarrow>
   firstRelevant q (pre @ d # post) = Some (archiveHit d)"
  by (induction pre) simp_all

text \<open>
  C6: whatever documents the search returns, \<open>searchArchiveOrg\<close> answers with the first
  one, in the order of the response, whose title passes \<open>isStrictMatch\<close> against the
  query, whatever follows it: the object returned carries the title of that document
  and the URL of its details page, built from its identifier. It answers \<open>null\<close> when
  no title passes.
\<close>

theorem searchArchiveOrg_first_match:
  assumes "api query = Some docs"
  shows "((\<forall>d\<in>set docs. \<not> isStrictMatch (orEmpty (doc_title d)) query None) \<longrightarrow>
            searchArchiveOrg api query = None)
       \<and> (\<forall>pre d post.
            docs = pre @ d # post
            \<and> (\<forall>p\<in>set pre. \<not> isStrictMatch (orEmpty (doc_title p)) query None)
            \<and> isStrictMatch (orEmpty (doc_title d)) query None \<longrightarrow>
            searchArchiveOrg api query =
              Some \<lparr> meta_title = doc_title d,
                     meta_url = Some (js ''https://archive.org/details/'' @ doc_identifier d),
                     meta_duration = None,
                     meta_extractor = Some (js ''archive.org'') \<rparr>)"
proof (intro conjI allI impI)
  assume "\<forall>d\<in>set docs. \<not> isStrictMatch (orEmpty (doc_title d)) query None"
  then have "firstRelevant query docs = None"
    by (rule firstRelevant_none)
  with assms show "searchArchiveOrg api query = None"
    by (simp add: searchArchiveOrg_def)
next
  fix pre d post
  assume h: "docs = pre @ d # post
            \<and> (\<forall>p\<in>set pre. \<not> isStrictMatch (orEmpty (doc_title p)) query None)
            \<and> isStrictMatch (orEmpty (doc_title d)) query None"
  then have "firstRelevant query docs = Some (archiveHit d)"
    by (simp add: firstRelevant_first)
  with assms h show "searchArchiveOrg api query =
              Some \<lparr> meta_title = doc_title d,
                     meta_url = Some (js ''https://archive.org/details/'' @ doc_identifier d),
                     meta_duration = None,
                     meta_extractor = Some (js ''archive.org'') \<rparr>"
    by (simp add: searchArchiveOrg_def archiveHit_def)
qed

theorem searchArchiveOrg_first_match_witness:
  "searchArchiveOrg
     (\<lambda>q. Some [\<lparr>doc_identifier = js ''x1'', doc_title = Some (js ''Other Tune'')\<rparr>,
                \<lparr>doc_identifier = js ''x2'', doc_title = Some (js ''Hello World'')\<rparr>,
                \<lparr>doc_identifier = js ''x3'', doc_title = Some (js ''Hello'')\<rparr>])
     (js ''hello'')
   = Some \<lparr> meta_title = Some (js ''Hello World''),
            meta_url = Some (js ''https://archive.org/details/x2''),
            meta_duration = None,
            meta_extractor = Some (js ''archive.org'') \<rparr>"
proof -
  let ?d1 = "\<lparr>doc_identifier = js ''x1'', doc_title = Some (js ''Other Tune'')\<rparr>"
  let ?d2 = "\<lparr>doc_identifier = js ''x2'', doc_title = Some (js ''Hello World'')\<rparr>"
  let ?d3 = "\<lparr>doc_identifier = js ''x3'', doc_title = Some (js ''Hello'')\<rparr>"
  let ?api = "\<lambda>q :: jsstring. Some [?d1, ?d2, ?d3]"
  have a: "?api (js ''hello'') = Some [?d1, ?d2, ?d3]"
    by simp
  have n1: "\<not> isStrictMatch (js ''Other Tune'') (js ''hello'') None"
    by (simp add: matcher_eval)
  have y2: "isStrictMatch (js ''Hello World'') (js ''hello'') None"
    by (simp add: matcher_eval)
  have "[?d1, ?d2, ?d3] = [?d1] @ ?d2 # [?d3]
        \<and> (\<forall>p\<in>set [?d1]. \<not> isStrictMatch (orEmpty (doc_title p)) (js ''hello'') None)
        \<and> isStrictMatch (orEmpty (doc_title ?d2)) (js ''hello'') None"
    using n1 y2 by simp
  with searchArchiveOrg_first_match [of ?api "js ''hello''" "[?d1, ?d2, ?d3]"] a
  have "searchArchiveOrg ?api (js ''hello'') =
              Some \<lparr> meta_title = doc_title ?d2,
                     meta_url = Some (js ''https://archive.org/details/'' @ doc_identifier ?d2),
                     meta_duration = None,
                     meta_extractor = Some (js ''archive.org'') \<rparr>"
    by blast
  then show ?thesis
    by (simp add: js_def)
qed

section \<open>Properties of the handler\<close>

lemmas action_defs =
  ret_def throwErr_def andThen_def next_do_def tryCatch_def emit_def logLine_def setFile_def
  unlinkIfExists_def sendMessage_def

lemmas run_eval =
  handleSearchMode_def handleBody_def topLevelCatch_def classifyInput_def readLinkMetadata_def
  ensureYtDlp_def resolveAudio_def searchTiers_def deezerTier_def soundcloudTier_def
  fallbackTier_def getMetadata_def getMetadataTool_def isHttpUrl_def downloadFromDeezer_def
  searchArchiveOrg_def findCover_def coverNames_def getSpotifyCover_def getSpotifyToken_def
  getDeezerCover_def deliver_def downloadAndMerge_def mergeStep_def sendAndCleanup_def metaOfJson_def orElse_def
  orElseNum_def placeholderCover_def

lemmas str_eval =
  js_def asciiLower_def startsWithCI_def isLineTerminator_def annotationBody_def annotationAt_def
  trim_def cleanQuery_def separatorAt_def dashMarkAt_def matchesUrlRegex_def dspHosts_def matchesDspRegex_def
  matchesYoutube_def isSpaceChar_def Let_def

lemmas fixture_defs =
  idleWorld_def barrenEnv_def friendlyEnv_def helloContext_def helloJson_def exampleCover_def
  soundcloudEnv_def deezerEnv_def spotifyCover_def tokenDownEnv_def tokenCachedWorld_def

lemma matchesUrlRegex_nonempty: "matchesUrlRegex text \<Longrightarrow> text \<noteq> []"
  by (auto simp: matchesUrlRegex_def Let_def split: if_splits)

lemma matchesYoutube_nonempty: "matchesYoutube text \<Longrightarrow> text \<noteq> []"
  by (auto simp: matchesYoutube_def js_def)

text \<open>The guard of line 379: what the analysis of the input does with a plain URL.\<close>

lemma reject_plain_url:
  assumes "matchesUrlRegex text" and "\<not> matchesDspRegex text"
  shows "classifyInput E chatId text w =
     (if sendMessage_ok E MsgNonMusicLink
      then (Inr None, w\<lparr>trace := trace w @ [SendMessage MsgNonMusicLink],
                         files := (files w)(LockFile chatId := Missing),
                         logged := logged w @ [Warn]\<rparr>)
      else (Inl TransportError, w\<lparr>trace := trace w @ [SendMessage MsgNonMusicLink]\<rparr>))"
  using assms by (auto simp add: classifyInput_def action_defs fun_upd_idem)


text \<open>
  The same holds of every bare YouTube URL: the analysis of the input ends at the
  guard, whatever the collaborators are.
\<close>

lemma every_bare_youtube_url_rejected:
  assumes "matchesUrlRegex text" and "matchesYoutube text" and "\<not> matchesDspRegex text"
  shows "classifyInput E chatId text w =
     (if sendMessage_ok E MsgNonMusicLink
      then (Inr None, w\<lparr>trace := trace w @ [SendMessage MsgNonMusicLink],
                         files := (files w)(LockFile chatId := Missing),
                         logged := logged w @ [Warn]\<rparr>)
      else (Inl TransportError, w\<lparr>trace := trace w @ [SendMessage MsgNonMusicLink]\<rparr>))"
  by (rule reject_plain_url [OF assms(1) assms(3)])

text \<open>
  The branch of line 463, where the guard lets a text through: the run is the notice,
  \<open>ensureYtDlp\<close>, one metadata fetch for that exact text with no forced source, the
  cover search and the delivery of that very text. No tier is tried and no title is
  checked.
\<close>

lemma youtube_text_past_the_guard_is_direct:
  assumes "matchesYoutube text" and "\<not> matchesDspRegex text" and "\<not> matchesUrlRegex text"
    and "files w (LockFile chatId) = Missing"
  shows "handleSearchMode E chatId (Some text) w =
              next_do (logLine Info)
                (next_do (setFile (LockFile chatId) NonEmpty)
                   (tryCatch
                      (next_do (sendMessage E MsgProcessingYouTubeLink)
                         (next_do (ensureYtDlp E)
                            (andThen (getMetadataTool E text None) (\<lambda>meta.
                               andThen (findCover E text) (\<lambda>coverUrl.
                                 deliver E chatId (Some text)
                                   (case meta of Some m \<Rightarrow> meta_title m
                                    | None \<Rightarrow> Some (js ''Unknown Track''))
                                   coverUrl)))))
                      (topLevelCatch E chatId))) w"
  using assms matchesYoutube_nonempty [OF assms(1)]
  by (simp add: handleSearchMode_def handleBody_def classifyInput_def resolveAudio_def
        getMetadata_def action_defs split: prod.splits sum.splits)

text \<open>
  C7: a text that matches the bare URL pattern and none of the streaming-service
  hosts, arriving while the chat is not locked, is answered with the rejection and
  nothing else: the whole run is that one reply (followed by the error reply if the
  transport refuses it). The binary is not installed, no resolver and no cover search
  is called.
\<close>

theorem plain_url_rejected_without_resolver:
  assumes "matchesUrlRegex text" and "\<not> matchesDspRegex text"
    and "files w (LockFile chatId) = Missing"
  shows "handleSearchMode E chatId (Some text) w =
     (if sendMessage_ok E MsgNonMusicLink
      then (Inr (), w\<lparr>trace := trace w @ [SendMessage MsgNonMusicLink],
                       logged := logged w @ [Info, Warn]\<rparr>)
      else if sendMessage_ok E (MsgError TransportError)
      then (Inr (), w\<lparr>trace := trace w @ [SendMessage MsgNonMusicLink,
                                            SendMessage (MsgError TransportError)],
                       logged := logged w @ [Info, Err]\<rparr>)
      else (Inl TransportError,
            w\<lparr>trace := trace w @ [SendMessage MsgNonMusicLink,
                                   SendMessage (MsgError TransportError)],
              files := (files w)(LockFile chatId := NonEmpty),
              logged := logged w @ [Info, Err]\<rparr>))"
  using assms matchesUrlRegex_nonempty [OF assms(1)]
  by (auto simp add: handleSearchMode_def handleBody_def topLevelCatch_def reject_plain_url
        action_defs fun_upd_idem)

theorem plain_url_rejected_without_resolver_witness:
  "matchesUrlRegex (js ''https://example.com/page'')
   \<and> \<not> matchesDspRegex (js ''https://example.com/page'')
   \<and> handleSearchMode friendlyEnv 7 (Some (js ''https://example.com/page'')) idleWorld
       = (Inr (), idleWorld\<lparr>trace := [SendMessage MsgNonMusicLink], logged := [Info, Warn]\<rparr>)"
proof -
  have h1: "matchesUrlRegex (js ''https://example.com/page'')"
    by (simp add: str_eval)
  have h2: "\<not> matchesDspRegex (js ''https://example.com/page'')"
    by (simp add: str_eval)
  have h3: "files idleWorld (LockFile 7) = Missing"
    by (simp add: idleWorld_def)
  have ok: "sendMessage_ok friendlyEnv MsgNonMusicLink"
    by (simp add: fixture_defs)
  from plain_url_rejected_without_resolver [OF h1 h2 h3, of friendlyEnv] ok
  have "handleSearchMode friendlyEnv 7 (Some (js ''https://example.com/page'')) idleWorld
       = (Inr (), idleWorld\<lparr>trace := trace idleWorld @ [SendMessage MsgNonMusicLink],
                           logged := logged idleWorld @ [Info, Warn]\<rparr>)"
    by simp
  then have "handleSearchMode friendlyEnv 7 (Some (js ''https://example.com/page'')) idleWorld
       = (Inr (), idleWorld\<lparr>trace := [SendMessage MsgNonMusicLink], logged := [Info, Warn]\<rparr>)"
    by (simp add: idleWorld_def)
  with h1 h2 show ?thesis by simp
qed

text \<open>
  C9: when the lock file of the chat is there, the handler returns normally and leaves
  the world as it found it: no reply, no call, the same files (the lock among them)
  and the same token cache. Its only mark is the line that \<open>logInfo\<close> wrote before
  the lock was looked at, and not even that for a message without text.
\<close>

theorem locked_chat_is_dropped_silently:
  assumes "files w (LockFile chatId) \<noteq> Missing"
  shows "handleSearchMode E chatId text w
         = (Inr (), w\<lparr>logged := logged w @ (if truthy text then [Info] else [])\<rparr>)"
  using assms by (simp add: handleSearchMode_def action_defs)

theorem locked_chat_is_dropped_silently_witness:
  "handleSearchMode friendlyEnv 7 (Some (js ''hello''))
     (idleWorld\<lparr>files := (files idleWorld)(LockFile 7 := NonEmpty)\<rparr>)
   = (Inr (), idleWorld\<lparr>files := (files idleWorld)(LockFile 7 := NonEmpty), logged := [Info]\<rparr>)"
proof -
  let ?w = "idleWorld\<lparr>files := (files idleWorld)(LockFile 7 := NonEmpty)\<rparr>"
  have h: "files ?w (LockFile 7) \<noteq> Missing"
    by simp
  from locked_chat_is_dropped_silently [OF h, of friendlyEnv "Some (js ''hello'')"]
  show ?thesis
    by (simp add: js_def idleWorld_def)
qed

text \<open>
  C3 does not hold of the code: the outer \<open>catch\<close> sends its error reply before it
  removes the lock. For a plain query that no source can resolve, in a chat whose
  transport refuses every reply, the reply that nothing was found throws, the error
  reply throws again, and the handler ends with the lock file it created still there.
\<close>

theorem lock_survives_refused_error_reply:
  "files idleWorld (LockFile 7) = Missing
   \<and> fst (handleSearchMode barrenEnv 7 (Some (js ''hello'')) idleWorld) = Inl TransportError
   \<and> files (snd (handleSearchMode barrenEnv 7 (Some (js ''hello'')) idleWorld)) (LockFile 7)
       = NonEmpty"
  by (simp add: run_eval action_defs str_eval fixture_defs)


section \<open>Properties of the resolution tiers\<close>

lemma downloadFromDeezer_trace:
  assumes "downloadFromDeezer E q w = (Inr (Some m), w')"
  shows "\<exists>track. deezerApi E q = Some track
           \<and> trace w' = trace w @ [DeezerApiSearch q,
                                    YtDlpDeezer (js ''https://www.deezer.com/track/'' @ dz_id track)]"
  using assms
  by (auto simp: downloadFromDeezer_def action_defs Let_def
        split: if_splits option.splits tool_result.splits)

text \<open>
  C4: with the Deezer credential set, whenever \<open>downloadFromDeezer\<close> yields a result
  for the query, the tiers end there: that result is the answer of the search and its
  URL and title are what the handler goes on with, whatever the title is; the only
  calls made are the Deezer API search and the \<open>yt-dlp\<close> call on the Deezer track, so
  neither SoundCloud, YouTube nor the Archive is asked.
\<close>

theorem deezer_hit_ends_the_search:
  assumes arl: "truthy (DEEZER_ARL E)" and nd: "\<not> truthy (ctx_directUrl ctx)"
    and dz: "downloadFromDeezer E (ctx_query ctx) (w\<lparr>logged := logged w @ [Info]\<rparr>)
             = (Inr (Some m), w')"
  shows "searchTiers E ctx w = (Inr (Some m), w'\<lparr>logged := logged w' @ [Info]\<rparr>)
       \<and> resolveAudio E chatId ctx w
           = (Inr (Some (meta_url m, meta_title m)), w'\<lparr>logged := logged w' @ [Info]\<rparr>)
       \<and> (\<exists>track. deezerApi E (ctx_query ctx) = Some track
             \<and> trace w' = trace w @ [DeezerApiSearch (ctx_query ctx),
                    YtDlpDeezer (js ''https://www.deezer.com/track/'' @ dz_id track)])"
proof -
  have t: "deezerTier E ctx w = (Inr (Some m), w'\<lparr>logged := logged w' @ [Info]\<rparr>)"
    using arl dz by (simp add: deezerTier_def action_defs)
  then have s: "searchTiers E ctx w = (Inr (Some m), w'\<lparr>logged := logged w' @ [Info]\<rparr>)"
    by (simp add: searchTiers_def action_defs)
  then have r: "resolveAudio E chatId ctx w
                = (Inr (Some (meta_url m, meta_title m)), w'\<lparr>logged := logged w' @ [Info]\<rparr>)"
    using nd by (simp add: resolveAudio_def action_defs)
  from downloadFromDeezer_trace [OF dz] s r show ?thesis by simp
qed

theorem deezer_hit_ends_the_search_witness:
  "\<not> isStrictMatch (js ''Someone - Goodbye'') (js ''hello'') None
   \<and> fst (resolveAudio deezerEnv 7 helloContext idleWorld)
       = Inr (Some (Some (js ''https://www.deezer.com/track/42''), Some (js ''Someone - Goodbye'')))
   \<and> trace (snd (resolveAudio deezerEnv 7 helloContext idleWorld))
       = [DeezerApiSearch (js ''hello''), YtDlpDeezer (js ''https://www.deezer.com/track/42'')]"
proof -
  let ?m = "\<lparr> meta_title = Some (js ''Someone - Goodbye''),
               meta_url = Some (js ''https://www.deezer.com/track/42''),
               meta_duration = Some 200, meta_extractor = Some (js ''deezer'') \<rparr>"
  let ?run = "downloadFromDeezer deezerEnv (ctx_query helloContext)
                (idleWorld\<lparr>logged := logged idleWorld @ [Info]\<rparr>)"
  have arl: "truthy (DEEZER_ARL deezerEnv)"
    by (simp add: fixture_defs js_def)
  have nd: "\<not> truthy (ctx_directUrl helloContext)"
    by (simp add: fixture_defs)
  have "fst ?run = Inr (Some ?m)"
    by (simp add: run_eval action_defs fixture_defs js_def Let_def)
  then have dz: "?run = (Inr (Some ?m), snd ?run)"
    by (simp add: prod_eq_iff)
  have tr: "trace (snd ?run)
            = [DeezerApiSearch (js ''hello''), YtDlpDeezer (js ''https://www.deezer.com/track/42'')]"
    by (simp add: run_eval action_defs fixture_defs js_def Let_def)
  have nm: "\<not> isStrictMatch (js ''Someone - Goodbye'') (js ''hello'') None"
    by (simp add: matcher_eval)
  from deezer_hit_ends_the_search [OF arl nd dz, of 7] tr nm show ?thesis
    by simp
qed

text \<open>
  C5, as stated, fails: the preview check is \<open>meta.duration && meta.duration < 45\<close>,
  and a reported duration of \<open>0\<close> is falsy, so a result whose title matches and whose
  duration is \<open>0\<close> (which is under 45) is kept.
\<close>

theorem soundcloud_zero_duration_kept_counterexample:
  "isStrictMatch (orEmpty (meta_title (metaOfJson (helloJson 0))))
     (ctx_trackNameForCheck helloContext) (ctx_artistForCheck helloContext)
   \<and> meta_duration (metaOfJson (helloJson 0)) = Some 0 \<and> (0 :: rat) < 45
   \<and> fst (soundcloudTier (soundcloudEnv 0) helloContext idleWorld)
       = Inr (Some (metaOfJson (helloJson 0)))"
  by (simp add: run_eval action_defs fixture_defs matcher_eval)

text \<open>
  C5, amended: a SoundCloud result is discarded exactly when it fails \<open>isStrictMatch\<close>
  against the track and artist that the analysis of the input left, or its reported
  duration is present, not zero and under 45 seconds. A discarded result makes the
  search go on with YouTube (and then the Archive); a kept one is the answer.
\<close>

theorem soundcloud_result_filter:
  assumes dz: "deezerTier E ctx w = (Inr None, w1)"
    and sc: "getMetadata E (ctx_query ctx) (Some Soundcloud) (w1\<lparr>logged := logged w1 @ [Info]\<rparr>)
             = (Inr (Some m), w2)"
  shows "fst (soundcloudTier E ctx w1) =
           (if \<not> isStrictMatch (orEmpty (meta_title m)) (ctx_trackNameForCheck ctx)
                   (ctx_artistForCheck ctx)
               \<or> (\<exists>d. meta_duration m = Some d \<and> d \<noteq> 0 \<and> d < 45)
            then Inr None else Inr (Some m))
       \<and> searchTiers E ctx w =
           (if \<not> isStrictMatch (orEmpty (meta_title m)) (ctx_trackNameForCheck ctx)
                   (ctx_artistForCheck ctx)
               \<or> (\<exists>d. meta_duration m = Some d \<and> d \<noteq> 0 \<and> d < 45)
            then andThen (fallbackTier E ctx Youtube)
                   (\<lambda>meta. if meta = None then fallbackTier E ctx Archive else ret meta)
                   (snd (soundcloudTier E ctx w1))
            else (Inr (Some m), snd (soundcloudTier E ctx w1)))"
proof -
  have p: "(truthyNum (meta_duration m) \<and> the (meta_duration m) < 45)
           = (\<exists>d. meta_duration m = Some d \<and> d \<noteq> 0 \<and> d < 45)"
    by (cases "meta_duration m") auto
  have a: "fst (soundcloudTier E ctx w1) =
           (if \<not> isStrictMatch (orEmpty (meta_title m)) (ctx_trackNameForCheck ctx)
                   (ctx_artistForCheck ctx)
               \<or> (\<exists>d. meta_duration m = Some d \<and> d \<noteq> 0 \<and> d < 45)
            then Inr None else Inr (Some m))"
    using sc unfolding p [symmetric]
    by (simp add: soundcloudTier_def ret_def throwErr_def andThen_def next_do_def logLine_def Let_def)
  have b: "searchTiers E ctx w =
             andThen (if fst (soundcloudTier E ctx w1) = Inr None then fallbackTier E ctx Youtube
                      else ret (projr (fst (soundcloudTier E ctx w1))))
               (\<lambda>meta. if meta = None then fallbackTier E ctx Archive else ret meta)
               (snd (soundcloudTier E ctx w1))"
    using dz a
    by (cases "soundcloudTier E ctx w1")
      (auto simp add: searchTiers_def ret_def andThen_def split: if_splits)
  show ?thesis using a b by (auto simp: ret_def andThen_def)
qed

theorem soundcloud_result_filter_witness:
  "isStrictMatch (orEmpty (meta_title (metaOfJson (helloJson 30))))
     (ctx_trackNameForCheck helloContext) (ctx_artistForCheck helloContext)
   \<and> fst (soundcloudTier (soundcloudEnv 30) helloContext idleWorld) = Inr None
   \<and> trace (snd (searchTiers (soundcloudEnv 30) helloContext idleWorld))
       = [YtDlpDumpJson (js ''scsearch1:hello'') False,
          YtDlpDumpJson (js ''ytsearch1:hello'') True,
          ArchiveSearch (js ''hello'')]"
proof -
  let ?E = "soundcloudEnv 30"
  let ?run = "getMetadata ?E (ctx_query helloContext) (Some Soundcloud)
                (idleWorld\<lparr>logged := logged idleWorld @ [Info]\<rparr>)"
  have dz: "deezerTier ?E helloContext idleWorld = (Inr None, idleWorld)"
    by (simp add: deezerTier_def ret_def fixture_defs)
  have "fst ?run = Inr (Some (metaOfJson (helloJson 30)))"
    by (simp add: run_eval action_defs fixture_defs js_def Let_def)
  then have sc: "?run = (Inr (Some (metaOfJson (helloJson 30))), snd ?run)"
    by (simp add: prod_eq_iff)
  have match: "isStrictMatch (orEmpty (meta_title (metaOfJson (helloJson 30))))
     (ctx_trackNameForCheck helloContext) (ctx_artistForCheck helloContext)"
    by (simp add: metaOfJson_def fixture_defs matcher_eval)
  have short: "\<exists>d. meta_duration (metaOfJson (helloJson 30)) = Some d \<and> d \<noteq> 0 \<and> d < 45"
    by (simp add: metaOfJson_def fixture_defs)
  from soundcloud_result_filter [OF dz sc] short
  have r: "fst (soundcloudTier ?E helloContext idleWorld) = Inr None"
    and s: "searchTiers ?E helloContext idleWorld =
              andThen (fallbackTier ?E helloContext Youtube)
                (\<lambda>meta. if meta = None then fallbackTier ?E helloContext Archive else ret meta)
                (snd (soundcloudTier ?E helloContext idleWorld))"
    by simp_all
  have "trace (snd (andThen (fallbackTier ?E helloContext Youtube)
                (\<lambda>meta. if meta = None then fallbackTier ?E helloContext Archive else ret meta)
                (snd (soundcloudTier ?E helloContext idleWorld))))
        = [YtDlpDumpJson (js ''scsearch1:hello'') False,
           YtDlpDumpJson (js ''ytsearch1:hello'') True,
           ArchiveSearch (js ''hello'')]"
    by (simp add: run_eval action_defs fixture_defs matcher_eval)
  with match r s show ?thesis by simp
qed


section \<open>Properties of the cover search\<close>

lemma coverSelection_append [simp]: "coverSelection (a @ b) = coverSelection a @ coverSelection b"
  by (induction a rule: coverSelection.induct) simp_all

lemma quietD:
  "quiet m \<Longrightarrow> m w = (r, w') \<Longrightarrow>
     coverSelection (trace w') = coverSelection (trace w)
     \<and> spotifyTokenCache w' = spotifyTokenCache w \<and> spotifyTokenExpiry w' = spotifyTokenExpiry w"
  unfolding quiet_def by (metis snd_conv)

lemma quietI:
  "(\<And>w r w'. m w = (r, w') \<Longrightarrow>
     coverSelection (trace w') = coverSelection (trace w)
     \<and> spotifyTokenCache w' = spotifyTokenCache w \<and> spotifyTokenExpiry w' = spotifyTokenExpiry w)
   \<Longrightarrow> quiet m"
  unfolding quiet_def by (metis prod.collapse)

lemma quiet_ret [simp, intro!]: "quiet (ret x)" by (simp add: quiet_def ret_def)
lemma quiet_throw [simp, intro!]: "quiet (throwErr e)" by (simp add: quiet_def throwErr_def)
lemma quiet_log [simp, intro!]: "quiet (logLine l)" by (simp add: quiet_def logLine_def)
lemma quiet_setFile [simp, intro!]: "quiet (setFile p s)" by (simp add: quiet_def setFile_def)
lemma quiet_unlink [simp, intro!]: "quiet (unlinkIfExists p)" by (simp add: quiet_def unlinkIfExists_def setFile_def)
lemma quiet_emit: "coverSelection [ev] = [] \<Longrightarrow> quiet (emit ev)" by (simp add: quiet_def emit_def)

lemma quiet_andThen [intro!]:
  assumes m: "quiet m" and f: "\<And>x. quiet (f x)"
  shows "quiet (andThen m f)"
proof (rule quietI)
  fix w r w'
  assume run: "andThen m f w = (r, w')"
  obtain r1 w1 where mw: "m w = (r1, w1)" by (cases "m w")
  note a = quietD [OF m mw]
  show "coverSelection (trace w') = coverSelection (trace w)
     \<and> spotifyTokenCache w' = spotifyTokenCache w \<and> spotifyTokenExpiry w' = spotifyTokenExpiry w"
  proof (cases r1)
    case (Inl e)
    with run mw a show ?thesis by (simp add: andThen_def)
  next
    case (Inr x)
    with run mw have "f x w1 = (r, w')" by (simp add: andThen_def)
    from quietD [OF f this] a show ?thesis by simp
  qed
qed

lemma quiet_next [intro!]: "quiet m \<Longrightarrow> quiet n \<Longrightarrow> quiet (next_do m n)"
  by (simp add: next_do_def quiet_andThen)

lemma quiet_tryCatch [intro!]:
  assumes m: "quiet m" and h: "\<And>e. quiet (h e)"
  shows "quiet (tryCatch m h)"
proof (rule quietI)
  fix w r w'
  assume run: "tryCatch m h w = (r, w')"
  obtain r1 w1 where mw: "m w = (r1, w1)" by (cases "m w")
  note a = quietD [OF m mw]
  show "coverSelection (trace w') = coverSelection (trace w)
     \<and> spotifyTokenCache w' = spotifyTokenCache w \<and> spotifyTokenExpiry w' = spotifyTokenExpiry w"
  proof (cases r1)
    case (Inr x)
    with run mw a show ?thesis by (simp add: tryCatch_def)
  next
    case (Inl e)
    with run mw have "h e w1 = (r, w')" by (simp add: tryCatch_def)
    from quietD [OF h this] a show ?thesis by simp
  qed
qed

lemma quiet_if [intro!]: "(c \<Longrightarrow> quiet a) \<Longrightarrow> (\<not> c \<Longrightarrow> quiet b) \<Longrightarrow> quiet (if c then a else b)"
  by simp
lemma quiet_send [simp, intro!]: "quiet (sendMessage E m)"
  by (auto simp: sendMessage_def intro!: quiet_emit)
lemma quiet_case_option [intro!]: "quiet a \<Longrightarrow> (\<And>x. quiet (b x)) \<Longrightarrow> quiet (case v of None \<Rightarrow> a | Some x \<Rightarrow> b x)"
  by (cases v) auto
lemma quiet_case_tool [intro!]:
  "quiet a \<Longrightarrow> quiet b \<Longrightarrow> (\<And>x. quiet (c x)) \<Longrightarrow>
     quiet (case v of SpawnFailed \<Rightarrow> a | NoResult \<Rightarrow> b | Printed x \<Rightarrow> c x)"
  by (cases v) auto

lemma quiet_let [intro!]: "quiet (f v) \<Longrightarrow> quiet (Let v f)"
  by simp
lemma quiet_state_if: "quiet a \<Longrightarrow> quiet b \<Longrightarrow> quiet (\<lambda>w. if c w then a w else b w)"
  by (simp add: quiet_def)

lemmas quiet_rules = quiet_if quiet_next quiet_andThen quiet_tryCatch quiet_case_option quiet_case_tool quiet_let quiet_send quiet_ret quiet_throw quiet_log
   quiet_unlink quiet_setFile quiet_emit

lemma quiet_classify: "quiet (classifyInput E c text)"
  unfolding classifyInput_def readLinkMetadata_def
  by (intro quiet_rules) simp_all

lemma quiet_ensure: "quiet (ensureYtDlp E)"
  by (simp add: quiet_def ensureYtDlp_def action_defs)

lemma quiet_tool: "quiet (getMetadataTool E q s)"
  unfolding getMetadataTool_def by (intro quiet_rules; simp)

lemma quiet_getMetadata: "quiet (getMetadata E q s)"
  unfolding getMetadata_def by (intro quiet_rules quiet_tool; simp)

lemma quiet_deezer: "quiet (downloadFromDeezer E q)"
  unfolding downloadFromDeezer_def by (intro quiet_rules; simp)

lemma quiet_tiers: "quiet (searchTiers E ctx)"
  unfolding searchTiers_def deezerTier_def soundcloudTier_def fallbackTier_def
  by (intro quiet_rules quiet_getMetadata quiet_deezer; simp)

lemma quiet_resolve: "quiet (resolveAudio E c ctx)"
  unfolding resolveAudio_def
  by (intro quiet_rules quiet_getMetadata quiet_tiers; simp)

lemma quiet_catch: "quiet (topLevelCatch E c e)"
  unfolding topLevelCatch_def by (intro quiet_rules; simp)

lemma quiet_merge: "quiet (mergeStep E)"
  unfolding mergeStep_def by (intro quiet_rules; simp)

lemma quiet_sendAndCleanup: "quiet (sendAndCleanup E c t)"
  unfolding sendAndCleanup_def by (intro quiet_rules; simp)

lemma coverFree_quiet: "quiet m \<Longrightarrow> coverFree m"
  by (simp add: quiet_def coverFree_def)

lemma findCover_coverFree: "coverFree (findCover E q)"
  by (simp add: coverFree_def findCover_def getSpotifyCover_def getSpotifyToken_def getDeezerCover_def action_defs Let_def
      split: option.splits prod.splits)

lemma findCover_returns: "\<exists>cov. fst (findCover E q w) = Inr cov"
  by (simp add: findCover_def getSpotifyCover_def getSpotifyToken_def getDeezerCover_def action_defs Let_def
      split: option.splits prod.splits)

lemma findCover_cong:
  assumes "sameCatalogues E1 E2" "spotifyTokenCache w1 = spotifyTokenCache w2" "spotifyTokenExpiry w1 = spotifyTokenExpiry w2"
  shows "fst (findCover E1 q w1) = fst (findCover E2 q w2)"
  using assms
  by (simp add: sameCatalogues_def findCover_def getSpotifyCover_def getSpotifyToken_def getDeezerCover_def action_defs Let_def
      split: option.splits prod.splits)

lemma next_do_send:
  "next_do (sendMessage E m) n w =
     (if sendMessage_ok E m then n (w\<lparr>trace := trace w @ [SendMessage m]\<rparr>)
      else (Inl TransportError, w\<lparr>trace := trace w @ [SendMessage m]\<rparr>))"
  by (simp add: action_defs)

lemma next_do_emit: "next_do (emit ev) n w = n (w\<lparr>trace := trace w @ [ev]\<rparr>)"
  by (simp add: action_defs)

lemma quiet_guarded:
  "quiet X \<Longrightarrow> quiet (\<lambda>w. if c1 w then (Inl e1, w) else if c2 w then (Inl e2, w) else X w)"
  by (simp add: quiet_def)

lemma quiet_downloadAndMerge: "quiet (downloadAndMerge E chatId videoUrl videoTitle coverUrl)"
  unfolding downloadAndMerge_def
  by (intro quiet_rules quiet_guarded quiet_merge quiet_sendAndCleanup; simp)

lemma deliver_run:
  "deliver E chatId videoUrl videoTitle coverUrl w =
     (if sendMessage_ok E (MsgFound videoTitle)
      then downloadAndMerge E chatId videoUrl videoTitle coverUrl
             (w\<lparr>trace := trace w @ [SendMessage (MsgFound videoTitle), DownloadCover coverUrl]\<rparr>)
      else (Inl TransportError, w\<lparr>trace := trace w @ [SendMessage (MsgFound videoTitle)]\<rparr>))"
  by (simp add: deliver_def next_do_send next_do_emit)

lemma deliver_cover:
  "coverSelection (trace (snd (deliver E chatId videoUrl videoTitle coverUrl w)))
     = coverSelection (trace w) @ (if sendMessage_ok E (MsgFound videoTitle) then [coverUrl] else [])"
proof (cases "sendMessage_ok E (MsgFound videoTitle)")
  case False
  then show ?thesis by (simp add: deliver_run)
next
  case True
  let ?w1 = "w\<lparr>trace := trace w @ [SendMessage (MsgFound videoTitle), DownloadCover coverUrl]\<rparr>"
  obtain r2 w2 where rest: "downloadAndMerge E chatId videoUrl videoTitle coverUrl ?w1 = (r2, w2)"
    by (cases "downloadAndMerge E chatId videoUrl videoTitle coverUrl ?w1")
  from quietD [OF quiet_downloadAndMerge rest] rest True show ?thesis
    by (simp add: deliver_run)
qed

lemma classify_query:
  assumes "classifyInput E c text w = (Inr (Some ctx), w')"
  shows "ctx_query ctx = (if matchesDspRegex text then link_query (the (readLink E text))
                          else if matchesYoutube text then text else cleanQuery text)"
  using assms
  by (auto simp: classifyInput_def readLinkMetadata_def action_defs split: if_splits option.splits)

lemma sameCatalogues_refl: "sameCatalogues E E"
  by (simp add: sameCatalogues_def)

lemma findCover_Inr: "fst (findCover E q w) = Inr (projr (fst (findCover E q w)))"
  using findCover_returns [of E q w] by auto

text \<open>The cover that the body downloads, in terms of whether it resolves its audio.\<close>

lemma body_cover:
  "coverSelection (trace (snd (handleBody E c text w)))
     = coverSelection (trace w) @
         (case bodyResolution E c text w of
            None \<Rightarrow> []
          | Some (q, t) \<Rightarrow>
              if sendMessage_ok E (MsgFound t) then [projr (fst (findCover E q w))] else [])"
proof -
  obtain rc wc where cl: "classifyInput E c text w = (rc, wc)"
    by (cases "classifyInput E c text w")
  note qc = quietD [OF quiet_classify cl]
  show ?thesis
  proof (cases rc)
    case (Inl e)
    with cl qc show ?thesis
      by (simp add: handleBody_def andThen_def bodyResolution_def)
  next
    case (Inr octx)
    show ?thesis
    proof (cases octx)
      case None
      with Inr cl qc show ?thesis
        by (simp add: handleBody_def andThen_def ret_def bodyResolution_def)
    next
      case (Some ctx)
      obtain re we where en: "ensureYtDlp E wc = (re, we)"
        by (cases "ensureYtDlp E wc")
      note qe = quietD [OF quiet_ensure en]
      show ?thesis
      proof (cases re)
        case (Inl e)
        with Some Inr cl qc en qe show ?thesis
          by (simp add: handleBody_def andThen_def next_do_def bodyResolution_def)
      next
        case u: (Inr uu)
        obtain rr wr where rs: "resolveAudio E c ctx we = (rr, wr)"
          by (cases "resolveAudio E c ctx we")
        note qr = quietD [OF quiet_resolve rs]
        show ?thesis
        proof (cases rr)
          case (Inl e)
          with u Some Inr cl qc en qe rs qr show ?thesis
            by (simp add: handleBody_def andThen_def next_do_def bodyResolution_def)
        next
          case r: (Inr res)
          show ?thesis
          proof (cases res)
            case None
            with r u Some Inr cl qc en qe rs qr show ?thesis
              by (simp add: handleBody_def andThen_def next_do_def ret_def bodyResolution_def)
          next
            case res: (Some pair)
            obtain videoUrl videoTitle where pair: "pair = (videoUrl, videoTitle)"
              by (cases pair)
            obtain rf wf where fc: "findCover E (ctx_query ctx) wr = (rf, wf)"
              by (cases "findCover E (ctx_query ctx) wr")
            from findCover_returns [of E "ctx_query ctx" wr] fc
            obtain cov where cov: "rf = Inr cov" by auto
            have same: "fst (findCover E (ctx_query ctx) w) = Inr cov"
              using findCover_cong [OF sameCatalogues_refl, of w wr E "ctx_query ctx"]
                qc qe qr fc cov
              by simp
            have cf: "coverSelection (trace wf) = coverSelection (trace wr)"
              using findCover_coverFree [of E "ctx_query ctx"] fc
              unfolding coverFree_def by (metis snd_conv)
            have run: "handleBody E c text w = deliver E c videoUrl videoTitle cov wf"
              using cl Inr Some en u rs r res pair fc cov
              by (simp add: handleBody_def andThen_def next_do_def)
            have br: "bodyResolution E c text w = Some (ctx_query ctx, videoTitle)"
              using cl Inr Some en u rs r res pair
              by (simp add: bodyResolution_def)
            have "coverSelection (trace (snd (handleBody E c text w)))
                    = coverSelection (trace w)
                        @ (if sendMessage_ok E (MsgFound videoTitle) then [cov] else [])"
              using cf qr qe qc unfolding run deliver_cover by simp
            with same br show ?thesis by simp
          qed
        qed
      qed
    qed
  qed
qed

text \<open>The same for a run of the handler that takes the lock.\<close>

lemma run_cover:
  assumes "text \<noteq> []" and "files w (LockFile c) = Missing"
  shows "coverSelection (trace (snd (handleSearchMode E c (Some text) w)))
     = coverSelection (trace w) @
         (case bodyResolution E c text
                 (w\<lparr>logged := logged w @ [Info], files := (files w)(LockFile c := NonEmpty)\<rparr>) of
            None \<Rightarrow> []
          | Some (q, t) \<Rightarrow>
              if sendMessage_ok E (MsgFound t) then [projr (fst (findCover E q w))] else [])"
proof -
  let ?w0 = "w\<lparr>logged := logged w @ [Info], files := (files w)(LockFile c := NonEmpty)\<rparr>"
  have run: "handleSearchMode E c (Some text) w
             = tryCatch (handleBody E c text) (topLevelCatch E c) ?w0"
    using assms
    by (simp add: handleSearchMode_def next_do_def andThen_def logLine_def setFile_def ret_def)
  obtain rb wb where b: "handleBody E c text ?w0 = (rb, wb)"
    by (cases "handleBody E c text ?w0")
  have "coverSelection (trace (snd (tryCatch (handleBody E c text) (topLevelCatch E c) ?w0)))
          = coverSelection (trace wb)"
  proof (cases rb)
    case (Inl e)
    obtain rh wh where h: "topLevelCatch E c e wb = (rh, wh)"
      by (cases "topLevelCatch E c e wb")
    from quietD [OF quiet_catch h] b Inl h show ?thesis
      by (simp add: tryCatch_def)
  next
    case (Inr x)
    with b show ?thesis by (simp add: tryCatch_def)
  qed
  moreover have "coverSelection (trace wb) = coverSelection (trace (snd (handleBody E c text ?w0)))"
    using b by simp
  ultimately have step: "coverSelection (trace (snd (handleSearchMode E c (Some text) w)))
      = coverSelection (trace w) @
         (case bodyResolution E c text ?w0 of
            None \<Rightarrow> []
          | Some (q, t) \<Rightarrow>
              if sendMessage_ok E (MsgFound t) then [projr (fst (findCover E q ?w0))] else [])"
    unfolding run by (simp add: body_cover)
  have fc: "\<And>q. fst (findCover E q ?w0) = fst (findCover E q w)"
    by (rule findCover_cong [OF sameCatalogues_refl]) simp_all
  show ?thesis
  proof (cases "bodyResolution E c text ?w0")
    case None
    with step show ?thesis by simp
  next
    case (Some p)
    obtain q t where "p = (q, t)" by (cases p)
    with Some step fc [of q] show ?thesis by simp
  qed
qed

lemma bodyResolution_query:
  assumes "bodyResolution E c text w = Some (q, t)"
  shows "q = (if matchesDspRegex text then link_query (the (readLink E text))
              else if matchesYoutube text then text else cleanQuery text)"
proof -
  from assms obtain ctx wc where "classifyInput E c text w = (Inr (Some ctx), wc)"
    and "q = ctx_query ctx"
    by (auto simp: bodyResolution_def split: prod.splits sum.splits option.splits)
  with classify_query show ?thesis by blast
qed

text \<open>
  C8, as stated, fails: the cover also depends on the token cache, which is process
  state and no catalogue response. With the token endpoint down, a run that finds no
  cached token gets no Spotify cover and takes the one of Deezer, while a run on the
  same text, with the same collaborators and the same audio result, that finds a
  token cached by an earlier run takes the cover of Spotify.
\<close>

theorem cover_depends_on_token_cache_counterexample:
  "coverSelection (trace (snd (handleSearchMode tokenDownEnv 7 (Some (js ''hello'')) idleWorld)))
     = [exampleCover]
   \<and> coverSelection
       (trace (snd (handleSearchMode tokenDownEnv 7 (Some (js ''hello'')) tokenCachedWorld)))
     = [spotifyCover]
   \<and> exampleCover \<noteq> spotifyCover"
proof -
  have a: "trace (snd (handleSearchMode tokenDownEnv 7 (Some (js ''hello'')) idleWorld))
           = [InstallYtDlp, YtDlpDumpJson (js ''scsearch1:hello'') False,
              SpotifyTokenRequest, DeezerCoverSearch (js ''hello''),
              SendMessage (MsgFound (Some (js ''hello''))), DownloadCover exampleCover,
              YtDlpExtractAudio (js ''https://soundcloud.com/a/hello'') False,
              SendMessage MsgMerging, StartAnimation, MergeAudioImage,
              SendMessage MsgUploading, SendVideo (Some (js ''hello''))]"
    by (simp add: run_eval action_defs str_eval fixture_defs matcher_eval)
  have b: "trace (snd (handleSearchMode tokenDownEnv 7 (Some (js ''hello'')) tokenCachedWorld))
           = [InstallYtDlp, YtDlpDumpJson (js ''scsearch1:hello'') False,
              SpotifySearch (js ''hello''),
              SendMessage (MsgFound (Some (js ''hello''))), DownloadCover spotifyCover,
              YtDlpExtractAudio (js ''https://soundcloud.com/a/hello'') False,
              SendMessage MsgMerging, StartAnimation, MergeAudioImage,
              SendMessage MsgUploading, SendVideo (Some (js ''hello''))]"
    by (simp add: run_eval action_defs str_eval fixture_defs matcher_eval)
  have c: "exampleCover \<noteq> spotifyCover"
    by (simp add: fixture_defs js_def)
  from a b c show ?thesis by simp
qed

text \<open>
  C8, amended: the cover is a function of the query, the catalogue responses and the
  token cache with the clock it is compared with, and of nothing that the audio
  sources return. Take two runs on the same text that both take the lock, with
  collaborators that give the same catalogue responses (and read a streaming-service
  link alike) and with the same token cache at the start, but that may differ in
  everything else: credentials and answers of the audio sources, tools, transport,
  chat, files. Then there is one cover URL such that each run downloads exactly that
  cover if it resolves its audio and its notice of the find is accepted, and no cover
  otherwise, whichever tier answered and whatever title and URL it returned.
\<close>

theorem cover_selection_ignores_audio_outcome:
  assumes cat: "sameCatalogues E1 E2" and link: "readLink E1 text = readLink E2 text"
    and tok: "spotifyTokenCache w1 = spotifyTokenCache w2"
             "spotifyTokenExpiry w1 = spotifyTokenExpiry w2"
    and adm: "text \<noteq> []" "files w1 (LockFile c1) = Missing" "files w2 (LockFile c2) = Missing"
  shows "\<exists>cov.
           coverSelection (trace (snd (handleSearchMode E1 c1 (Some text) w1)))
             = coverSelection (trace w1) @
                 (case resolvedTitle E1 c1 text w1 of
                    None \<Rightarrow> []
                  | Some t \<Rightarrow> if sendMessage_ok E1 (MsgFound t) then [cov] else [])
         \<and> coverSelection (trace (snd (handleSearchMode E2 c2 (Some text) w2)))
             = coverSelection (trace w2) @
                 (case resolvedTitle E2 c2 text w2 of
                    None \<Rightarrow> []
                  | Some t \<Rightarrow> if sendMessage_ok E2 (MsgFound t) then [cov] else [])"
proof -
  let ?v1 = "w1\<lparr>logged := logged w1 @ [Info], files := (files w1)(LockFile c1 := NonEmpty)\<rparr>"
  let ?v2 = "w2\<lparr>logged := logged w2 @ [Info], files := (files w2)(LockFile c2 := NonEmpty)\<rparr>"
  let ?q = "if matchesDspRegex text then link_query (the (readLink E1 text))
            else if matchesYoutube text then text else cleanQuery text"
  let ?cov = "projr (fst (findCover E1 ?q w1))"
  have same: "fst (findCover E1 ?q w1) = fst (findCover E2 ?q w2)"
    by (rule findCover_cong [OF cat tok])
  have r1: "coverSelection (trace (snd (handleSearchMode E1 c1 (Some text) w1)))
             = coverSelection (trace w1) @
                 (case resolvedTitle E1 c1 text w1 of
                    None \<Rightarrow> []
                  | Some t \<Rightarrow> if sendMessage_ok E1 (MsgFound t) then [?cov] else [])"
  proof (cases "bodyResolution E1 c1 text ?v1")
    case None
    then show ?thesis
      by (simp add: run_cover [OF adm(1) adm(2)] resolvedTitle_def)
  next
    case (Some p)
    obtain q t where p: "p = (q, t)" by (cases p)
    from bodyResolution_query [of E1 c1 "text" ?v1 q t] Some p have "q = ?q" by simp
    with Some p show ?thesis
      by (simp add: run_cover [OF adm(1) adm(2)] resolvedTitle_def)
  qed
  have r2: "coverSelection (trace (snd (handleSearchMode E2 c2 (Some text) w2)))
             = coverSelection (trace w2) @
                 (case resolvedTitle E2 c2 text w2 of
                    None \<Rightarrow> []
                  | Some t \<Rightarrow> if sendMessage_ok E2 (MsgFound t) then [?cov] else [])"
  proof (cases "bodyResolution E2 c2 text ?v2")
    case None
    then show ?thesis
      by (simp add: run_cover [OF adm(1) adm(3)] resolvedTitle_def)
  next
    case (Some p)
    obtain q t where p: "p = (q, t)" by (cases p)
    from bodyResolution_query [of E2 c2 "text" ?v2 q t] Some p link have "q = ?q" by simp
    with Some p same show ?thesis
      by (simp add: run_cover [OF adm(1) adm(3)] resolvedTitle_def)
  qed
  from r1 r2 show ?thesis by blast
qed

theorem cover_selection_ignores_audio_outcome_witness:
  "sameCatalogues (soundcloudEnv 200) deezerEnv
   \<and> resolvedTitle (soundcloudEnv 200) 7 (js ''hello'') idleWorld = Some (Some (js ''hello''))
   \<and> resolvedTitle deezerEnv 8 (js ''hello'') idleWorld = Some (Some (js ''Someone - Goodbye''))
   \<and> coverSelection (trace (snd (handleSearchMode (soundcloudEnv 200) 7 (Some (js ''hello'')) idleWorld)))
       = [exampleCover]
   \<and> coverSelection (trace (snd (handleSearchMode deezerEnv 8 (Some (js ''hello'')) idleWorld)))
       = [exampleCover]"
proof -
  have cat: "sameCatalogues (soundcloudEnv 200) deezerEnv"
    by (simp add: sameCatalogues_def fixture_defs)
  have link: "readLink (soundcloudEnv 200) (js ''hello'') = readLink deezerEnv (js ''hello'')"
    by (simp add: fixture_defs)
  have ne: "js ''hello'' \<noteq> []"
    by (simp add: js_def)
  have free: "files idleWorld (LockFile 7) = Missing" "files idleWorld (LockFile 8) = Missing"
    by (simp_all add: idleWorld_def)
  have t1: "resolvedTitle (soundcloudEnv 200) 7 (js ''hello'') idleWorld = Some (Some (js ''hello''))"
    by (simp add: resolvedTitle_def bodyResolution_def run_eval action_defs str_eval fixture_defs
          matcher_eval)
  have t2: "resolvedTitle deezerEnv 8 (js ''hello'') idleWorld = Some (Some (js ''Someone - Goodbye''))"
    by (simp add: resolvedTitle_def bodyResolution_def run_eval action_defs str_eval fixture_defs
          matcher_eval)
  have ok1: "sendMessage_ok (soundcloudEnv 200) (MsgFound (Some (js ''hello'')))"
    by (simp add: fixture_defs)
  have ok2: "sendMessage_ok deezerEnv (MsgFound (Some (js ''Someone - Goodbye'')))"
    by (simp add: fixture_defs)
  have e1: "coverSelection
              (trace (snd (handleSearchMode (soundcloudEnv 200) 7 (Some (js ''hello'')) idleWorld)))
            = [exampleCover]"
    by (simp add: run_eval action_defs str_eval fixture_defs matcher_eval)
  have tk: "spotifyTokenCache idleWorld = spotifyTokenCache idleWorld"
    "spotifyTokenExpiry idleWorld = spotifyTokenExpiry idleWorld"
    by simp_all
  from cover_selection_ignores_audio_outcome [OF cat link tk ne free]
  obtain cov where
    c1: "coverSelection
           (trace (snd (handleSearchMode (soundcloudEnv 200) 7 (Some (js ''hello'')) idleWorld)))
         = coverSelection (trace idleWorld) @
             (case resolvedTitle (soundcloudEnv 200) 7 (js ''hello'') idleWorld of
                None \<Rightarrow> []
              | Some t \<Rightarrow> if sendMessage_ok (soundcloudEnv 200) (MsgFound t) then [cov] else [])"
    and c2: "coverSelection
           (trace (snd (handleSearchMode deezerEnv 8 (Some (js ''hello'')) idleWorld)))
         = coverSelection (trace idleWorld) @
             (case resolvedTitle deezerEnv 8 (js ''hello'') idleWorld of
                None \<Rightarrow> []
              | Some t \<Rightarrow> if sendMessage_ok deezerEnv (MsgFound t) then [cov] else [])"
    by blast
  from c1 e1 t1 ok1 have "cov = exampleCover"
    by (simp add: idleWorld_def)
  with c2 t2 ok2 have "coverSelection
           (trace (snd (handleSearchMode deezerEnv 8 (Some (js ''hello'')) idleWorld)))
         = [exampleCover]"
    by (simp add: idleWorld_def)
  with cat t1 t2 e1 show ?thesis by simp
qed

section \<open>Properties of the lock\<close>

lemma rl_throw: "releasesLock c (throwErr e) P" by (simp add: releasesLock_def throwErr_def)
lemma rl_ret_excluded: "\<not> P x \<Longrightarrow> releasesLock c (ret x) P" by (simp add: releasesLock_def ret_def)
lemma rl_andThen: "(\<And>x. releasesLock c (f x) P) \<Longrightarrow> releasesLock c (andThen m f) P"
  unfolding releasesLock_def andThen_def
  by (auto split: prod.splits sum.splits)
lemma rl_next: "releasesLock c n P \<Longrightarrow> releasesLock c (next_do m n) P"
  by (simp add: next_do_def rl_andThen)
lemma rl_tryCatch: "releasesLock c m P \<Longrightarrow> (\<And>e. releasesLock c (h e) P) \<Longrightarrow> releasesLock c (tryCatch m h) P"
  unfolding releasesLock_def tryCatch_def
  by (auto split: prod.splits sum.splits)
lemma rl_guarded:
  "releasesLock c X P \<Longrightarrow> releasesLock c (\<lambda>w. if c1 w then (Inl e1, w) else if c2 w then (Inl e2, w) else X w) P"
  by (simp add: releasesLock_def)
lemma rl_case_option: "releasesLock c a P \<Longrightarrow> (\<And>x. releasesLock c (b x) P) \<Longrightarrow> releasesLock c (case v of None \<Rightarrow> a | Some x \<Rightarrow> b x) P"
  by (cases v) auto
lemma rl_if: "(b \<Longrightarrow> releasesLock c x P) \<Longrightarrow> (\<not> b \<Longrightarrow> releasesLock c y P) \<Longrightarrow> releasesLock c (if b then x else y) P"
  by simp

lemma rl_unlink_ret: "releasesLock c (next_do (unlinkIfExists (LockFile c)) (ret x)) P"
  by (simp add: releasesLock_def action_defs)
lemma rl_unlink_log: "releasesLock c (next_do (unlinkIfExists (LockFile c)) (logLine l)) P"
  by (auto simp add: releasesLock_def action_defs)
lemma rl_unlink_log_ret: "releasesLock c (next_do (unlinkIfExists (LockFile c)) (next_do (logLine l) (ret x))) P"
  by (auto simp add: releasesLock_def action_defs)

lemma rl_readLink: "releasesLock c (readLinkMetadata E c text) (\<lambda>r. r = None)"
  unfolding readLinkMetadata_def
  by (intro rl_tryCatch rl_next rl_case_option rl_throw rl_ret_excluded rl_unlink_ret; simp)

lemma rl_classify: "releasesLock c (classifyInput E c text) (\<lambda>r. r = None)"
  unfolding classifyInput_def
  apply (intro rl_if)
       apply (rule rl_next, rule rl_unlink_log_ret)
      apply (rule rl_next, rule rl_unlink_log_ret)
     apply (rule rl_next, rule rl_readLink)
    apply (rule rl_next, rule rl_ret_excluded, simp)
   apply (rule rl_next, rule rl_ret_excluded, simp)
  apply (rule rl_ret_excluded, simp)
  done

lemma rl_resolve: "releasesLock c (resolveAudio E c ctx) (\<lambda>r. r = None)"
  unfolding resolveAudio_def
  apply (intro rl_if rl_andThen rl_case_option)
    apply (rule rl_ret_excluded, simp)
   apply (rule rl_next, rule rl_next,  rule rl_unlink_ret)
  apply (rule rl_ret_excluded, simp)
  done

lemma rl_sendAndCleanup: "releasesLock c (sendAndCleanup E c t) (\<lambda>u. True)"
  unfolding sendAndCleanup_def
  apply (rule rl_next, rule rl_next, rule rl_if, rule rl_throw)
  apply (rule rl_next, rule rl_next, rule rl_next, rule rl_unlink_log)
  done

lemma rl_downloadAndMerge: "releasesLock c (downloadAndMerge E c u t cov) (\<lambda>u. True)"
  unfolding downloadAndMerge_def
  apply (rule rl_next, rule rl_case_option, rule rl_throw)
  apply (rule rl_next, rule rl_case_option, rule rl_throw)
  apply (rule rl_next, rule rl_next, rule rl_guarded)
  apply (rule rl_next, rule rl_next, rule rl_if, rule rl_throw)
  apply (rule rl_next, rule rl_sendAndCleanup)
  done

lemma rl_deliver: "releasesLock c (deliver E c u t cov) (\<lambda>u. True)"
  unfolding deliver_def
  by (rule rl_next, rule rl_next, rule rl_downloadAndMerge)

lemma releasesLockD:
  "releasesLock c m P \<Longrightarrow> m w = (Inr x, w') \<Longrightarrow> P x \<Longrightarrow> files w' (LockFile c) = Missing"
  unfolding releasesLock_def by blast

lemma rl_body:
  assumes run: "handleBody E c text w = (Inr u, w')"
  shows "files w' (LockFile c) = Missing"
proof -
  obtain rc wc where cl: "classifyInput E c text w = (rc, wc)"
    by (cases "classifyInput E c text w")
  show ?thesis
  proof (cases rc)
    case (Inl e)
    with cl run show ?thesis by (simp add: handleBody_def andThen_def)
  next
    case (Inr octx)
    show ?thesis
    proof (cases octx)
      case None
      with Inr cl run have "w' = wc" by (simp add: handleBody_def andThen_def ret_def)
      with releasesLockD [OF rl_classify, of E c "text" w None wc] cl Inr None show ?thesis by simp
    next
      case (Some ctx)
      obtain re we where en: "ensureYtDlp E wc = (re, we)" by (cases "ensureYtDlp E wc")
      show ?thesis
      proof (cases re)
        case (Inl e)
        with Some Inr cl en run show ?thesis by (simp add: handleBody_def andThen_def next_do_def)
      next
        case ok: (Inr uu)
        obtain rr wr where rs: "resolveAudio E c ctx we = (rr, wr)"
          by (cases "resolveAudio E c ctx we")
        show ?thesis
        proof (cases rr)
          case (Inl e)
          with ok Some Inr cl en rs run show ?thesis
            by (simp add: handleBody_def andThen_def next_do_def)
        next
          case r: (Inr res)
          show ?thesis
          proof (cases res)
            case None
            with r ok Some Inr cl en rs run have "w' = wr"
              by (simp add: handleBody_def andThen_def next_do_def ret_def)
            with releasesLockD [OF rl_resolve, of E c ctx we None wr] rs r None show ?thesis by simp
          next
            case res: (Some pair)
            obtain videoUrl videoTitle where pair: "pair = (videoUrl, videoTitle)" by (cases pair)
            have "andThen (findCover E (ctx_query ctx)) (\<lambda>coverUrl. deliver E c videoUrl videoTitle coverUrl) wr
                  = (Inr u, w')"
              using cl Inr Some en ok rs r res pair run
              by (simp add: handleBody_def andThen_def next_do_def)
            from releasesLockD [OF rl_andThen [OF rl_deliver] this] show ?thesis by simp
          qed
        qed
      qed
    qed
  qed
qed

text \<open>
  What does hold of the lock: whenever the transport accepts the error reply of the
  outer \<open>catch\<close>, a run that starts with the lock absent ends with the lock absent,
  whether it delivers, rejects the input, finds nothing or fails on the way.
\<close>

lemma lock_released_when_error_reply_accepted:
  assumes free: "files w (LockFile c) = Missing"
    and ok: "\<And>e. sendMessage_ok E (MsgError e)"
  shows "files (snd (handleSearchMode E c text w)) (LockFile c) = Missing"
proof (cases "truthy text")
  case False
  with free show ?thesis by (simp add: handleSearchMode_def ret_def)
next
  case True
  let ?w0 = "w\<lparr>logged := logged w @ [Info], files := (files w)(LockFile c := NonEmpty)\<rparr>"
  have run: "handleSearchMode E c text w
             = tryCatch (handleBody E c (the text)) (topLevelCatch E c) ?w0"
    using True free
    by (simp add: handleSearchMode_def next_do_def andThen_def logLine_def setFile_def ret_def)
  obtain rb wb where b: "handleBody E c (the text) ?w0 = (rb, wb)"
    by (cases "handleBody E c (the text) ?w0")
  show ?thesis
  proof (cases rb)
    case (Inr u)
    with b rl_body [of E c "the text" ?w0 u wb] show ?thesis
      unfolding run by (simp add: tryCatch_def)
  next
    case (Inl e)
    with b ok [of e] show ?thesis
      unfolding run by (simp add: tryCatch_def topLevelCatch_def action_defs)
  qed
qed

end
